theory Spec2Isabelle
  imports Complex_Main "HOL-Library.Char_ord" "HOL-Library.List_Lexorder"
begin

section \<open>Strings and the standard-library functions the scraper calls\<close>

text \<open>
  The program comes in two source texts. The main program, called main.go below, follows
  the readme in README.md; it holds the parser, the scrape client and the terminal
  session. metrics.go holds a second version of the parser and of the scrape client.

  Go strings are byte sequences, modelled as \<open>string\<close> (a list of 8-bit characters).
  \<open>float64\<close> values are modelled as real numbers: rounding, NaN and the infinities are
  abstracted away, so every statement about a value below is a statement about the real
  number the float stands for.

  \<open>isSpace\<close> is the ASCII part of \<open>unicode.IsSpace\<close>, which \<open>strings.Fields\<close> and
  \<open>strings.TrimSpace\<close> both use: tab, line feed, vertical tab, form feed, carriage return
  and space.
\<close>

definition isSpace :: "char \<Rightarrow> bool" where
  "isSpace c =
     (c = CHR 0x09 \<or> c = CHR 0x0A \<or> c = CHR 0x0B \<or> c = CHR 0x0C \<or> c = CHR 0x0D \<or> c = CHR '' '')"

text \<open>
  \<open>strings.Fields\<close>: the maximal runs of non-space bytes, in order. \<open>fieldsFrom cur s\<close>
  scans \<open>s\<close> with the field under construction held reversed in \<open>cur\<close>.
\<close>

fun fieldsFrom :: "string \<Rightarrow> string \<Rightarrow> string list" where
  "fieldsFrom cur [] = (if cur = [] then [] else [rev cur])"
| "fieldsFrom cur (c # cs) =
     (if isSpace c
      then (if cur = [] then fieldsFrom [] cs else rev cur # fieldsFrom [] cs)
      else fieldsFrom (c # cur) cs)"

definition Fields :: "string \<Rightarrow> string list" where
  "Fields s = fieldsFrom [] s"

text \<open>\<open>strings.TrimSpace\<close>: leading and trailing white space removed.\<close>

definition TrimSpace :: "string \<Rightarrow> string" where
  "TrimSpace s = rev (dropWhile isSpace (rev (dropWhile isSpace s)))"

text \<open>\<open>strings.HasPrefix(line, "#")\<close>.\<close>

definition HasPrefixHash :: "string \<Rightarrow> bool" where
  "HasPrefixHash line = (case line of [] \<Rightarrow> False | c # _ \<Rightarrow> c = CHR ''#'')"

text \<open>
  \<open>strings.Index(s, "{")\<close>: the position of the first opening brace, \<open>None\<close> for Go's -1.
\<close>

fun IndexBrace :: "string \<Rightarrow> nat option" where
  "IndexBrace [] = None"
| "IndexBrace (c # cs) =
     (if c = CHR ''{'' then Some 0
      else (case IndexBrace cs of None \<Rightarrow> None | Some i \<Rightarrow> Some (Suc i)))"

text \<open>
  The base name of a metric token, as all three places of the program compute it:
  \<open>if idx := strings.Index(name, "{"); idx != -1 { base = name[:idx] }\<close>.
\<close>

definition baseNameOf :: "string \<Rightarrow> string" where
  "baseNameOf fullName = (case IndexBrace fullName of None \<Rightarrow> fullName | Some idx \<Rightarrow> take idx fullName)"

text \<open>
  \<open>strconv.ParseFloat\<close> belongs to the Go standard library. Every function below takes
  it as the parameter \<open>pf\<close> (\<open>None\<close> for a non-nil error), so the general theorems hold
  for whatever it accepts. For evaluation on concrete lines, \<open>decimalFloat\<close> is its
  behaviour on plain decimal literals (an optional sign, digits, an optional fraction);
  it is only ever applied to such literals and to tokens that are no number at all.
\<close>

fun digitIndex :: "string \<Rightarrow> char \<Rightarrow> nat option" where
  "digitIndex [] c = None"
| "digitIndex (d # ds) c = (if c = d then Some 0 else map_option Suc (digitIndex ds c))"

definition digitVal :: "char \<Rightarrow> nat option" where
  "digitVal c = digitIndex ''0123456789'' c"

fun digitsVal :: "string \<Rightarrow> nat \<Rightarrow> nat option" where
  "digitsVal [] acc = Some acc"
| "digitsVal (c # cs) acc =
     (case digitVal c of None \<Rightarrow> None | Some d \<Rightarrow> digitsVal cs (10 * acc + d))"

definition unsignedDecimal :: "string \<Rightarrow> real option" where
  "unsignedDecimal s =
     (let ip = takeWhile (\<lambda>c. c \<noteq> CHR ''.'') s;
          fp = drop 1 (dropWhile (\<lambda>c. c \<noteq> CHR ''.'') s)
      in if ip = [] \<and> fp = [] then None
         else (case digitsVal ip 0 of
                 None \<Rightarrow> None
               | Some i \<Rightarrow>
                   (case digitsVal fp 0 of
                      None \<Rightarrow> None
                    | Some f \<Rightarrow> Some (real i + real f / 10 ^ length fp))))"

definition decimalFloat :: "string \<Rightarrow> real option" where
  "decimalFloat s =
     (case s of
        [] \<Rightarrow> None
      | c # cs \<Rightarrow>
          if c = CHR ''-'' then map_option uminus (unsignedDecimal cs)
          else if c = CHR ''+'' then unsignedDecimal cs
          else unsignedDecimal s)"

section \<open>The exposition parser\<close>

text \<open>
  \<open>parseMetricLine\<close> of main.go. The Go function returns \<open>(name, value, ok)\<close>; the
  model returns \<open>None\<close> for \<open>ok = false\<close> and \<open>Some (name, value)\<close> otherwise.
\<close>

definition parseMetricLine :: "(string \<Rightarrow> real option) \<Rightarrow> string \<Rightarrow> (string \<times> real) option" where
  "parseMetricLine pf line =
     (let parts = Fields line in
      if length parts < 2 then None
      else (case (case pf (parts ! (length parts - 1)) of
                    Some val \<Rightarrow> Some val
                  | None \<Rightarrow>
                      if length parts \<ge> 3 then pf (parts ! (length parts - 2)) else None) of
              None \<Rightarrow> None
            | Some val \<Rightarrow> Some (baseNameOf (parts ! 0), val)))"

text \<open>
  \<open>parseMetricLine\<close> of metrics.go: the second field is the value, whatever follows it.
  \<open>strings.Cut(name, "{")\<close> yields the text before the first brace.
\<close>

definition parseMetricLine_metrics :: "(string \<Rightarrow> real option) \<Rightarrow> string \<Rightarrow> (string \<times> real) option" where
  "parseMetricLine_metrics pf line =
     (let parts = Fields line in
      if length parts < 2 then None
      else (case pf (parts ! 1) of
              None \<Rightarrow> None
            | Some val \<Rightarrow> Some (baseNameOf (parts ! 0), val)))"

section \<open>The scrape client\<close>

text \<open>
  One HTTP GET: either the transport fails, or a response arrives with a status code and
  a body, which \<open>bufio.Scanner\<close> hands over line by line.
\<close>

datatype http_result = TransportFailure string | HttpResponse nat "string list"

text \<open>
  The three errors the client builds with \<open>fmt.Errorf\<close>:
  \<open>"failed to fetch metrics: %w"\<close>, \<open>"unexpected status code: %d"\<close> and
  \<open>"metric %q not found"\<close>.
\<close>

datatype fetch_error = FetchFailed string | UnexpectedStatus nat | MetricNotFound string

record MetricSample =
  FullName :: string
  Value :: real

text \<open>
  \<open>fetchAllMetrics\<close> has the same text in main.go and metrics.go; it is parametrised by
  the \<open>parseMetricLine\<close> it calls. \<open>scanMetrics\<close> is its scanner loop, filling the set
  \<open>metrics\<close>; \<open>sort.Strings\<close> orders the names bytewise.
\<close>

fun scanMetrics :: "(string \<Rightarrow> (string \<times> real) option) \<Rightarrow> string list \<Rightarrow> string set \<Rightarrow> string set" where
  "scanMetrics parse [] metrics = metrics"
| "scanMetrics parse (line # rest) metrics =
     (if HasPrefixHash line \<or> length (TrimSpace line) = 0 then scanMetrics parse rest metrics
      else (case parse line of
              Some (n, _) \<Rightarrow> scanMetrics parse rest (insert n metrics)
            | None \<Rightarrow> scanMetrics parse rest metrics))"

definition fetchAllMetrics :: "(string \<Rightarrow> (string \<times> real) option) \<Rightarrow> http_result \<Rightarrow> fetch_error + string list" where
  "fetchAllMetrics parse resp =
     (case resp of
        TransportFailure e \<Rightarrow> Inl (FetchFailed e)
      | HttpResponse code body \<Rightarrow>
          if code \<noteq> 200 then Inl (UnexpectedStatus code)
          else Inr (sorted_list_of_set (scanMetrics parse body {})))"

text \<open>
  The body of the scanner loop of \<open>fetchAllMetricSeries\<close> in main.go: \<open>None\<close> stands for
  \<open>continue\<close>, \<open>Some\<close> for the sample appended.
\<close>

definition sampleOfLine :: "(string \<Rightarrow> real option) \<Rightarrow> string \<Rightarrow> string \<Rightarrow> MetricSample option" where
  "sampleOfLine pf metricName line =
     (if HasPrefixHash line \<or> length (TrimSpace line) = 0 then None
      else let parts = Fields line in
        if length parts < 2 then None
        else let fullName = parts ! 0; baseName = baseNameOf fullName in
          if baseName \<noteq> metricName then None
          else (case (case pf (parts ! (length parts - 1)) of
                        Some val \<Rightarrow> Some val
                      | None \<Rightarrow>
                          if length parts \<ge> 3 then pf (parts ! (length parts - 2)) else None) of
                  None \<Rightarrow> None
                | Some val \<Rightarrow>
                    Some \<lparr>FullName = (if CHR ''{'' \<notin> set fullName then fullName @ ''{}'' else fullName),
                          Value = val\<rparr>))"

text \<open>The same loop body in metrics.go: the value is the second field.\<close>

definition sampleOfLine_metrics :: "(string \<Rightarrow> real option) \<Rightarrow> string \<Rightarrow> string \<Rightarrow> MetricSample option" where
  "sampleOfLine_metrics pf metricName line =
     (if HasPrefixHash line \<or> length (TrimSpace line) = 0 then None
      else let parts = Fields line in
        if length parts < 2 then None
        else let fullName = parts ! 0; baseName = baseNameOf fullName in
          if baseName \<noteq> metricName then None
          else (case pf (parts ! 1) of
                  None \<Rightarrow> None
                | Some val \<Rightarrow>
                    Some \<lparr>FullName = (if CHR ''{'' \<notin> set fullName then fullName @ ''{}'' else fullName),
                          Value = val\<rparr>))"

fun scanSeries :: "(string \<Rightarrow> MetricSample option) \<Rightarrow> string list \<Rightarrow> MetricSample list \<Rightarrow> MetricSample list" where
  "scanSeries body [] samples = samples"
| "scanSeries body (line # rest) samples =
     (case body line of
        None \<Rightarrow> scanSeries body rest samples
      | Some s \<Rightarrow> scanSeries body rest (samples @ [s]))"

definition fetchSeriesWith :: "(string \<Rightarrow> MetricSample option) \<Rightarrow> http_result \<Rightarrow> string \<Rightarrow> fetch_error + MetricSample list" where
  "fetchSeriesWith body resp metricName =
     (case resp of
        TransportFailure e \<Rightarrow> Inl (FetchFailed e)
      | HttpResponse code lines \<Rightarrow>
          if code \<noteq> 200 then Inl (UnexpectedStatus code)
          else let samples = scanSeries body lines [] in
            if length samples = 0 then Inl (MetricNotFound metricName) else Inr samples)"

definition fetchAllMetricSeries :: "(string \<Rightarrow> real option) \<Rightarrow> http_result \<Rightarrow> string \<Rightarrow> fetch_error + MetricSample list" where
  "fetchAllMetricSeries pf resp metricName = fetchSeriesWith (sampleOfLine pf metricName) resp metricName"

definition fetchAllMetricSeries_metrics :: "(string \<Rightarrow> real option) \<Rightarrow> http_result \<Rightarrow> string \<Rightarrow> fetch_error + MetricSample list" where
  "fetchAllMetricSeries_metrics pf resp metricName =
     fetchSeriesWith (sampleOfLine_metrics pf metricName) resp metricName"

text \<open>
  A line counts for a metric when the scrape loop does not skip it as a comment or a
  blank line and the parser accepts it with that base name.
\<close>

definition acceptedFor :: "(string \<Rightarrow> (string \<times> real) option) \<Rightarrow> string \<Rightarrow> string \<Rightarrow> bool" where
  "acceptedFor parse metricName line =
     (if HasPrefixHash line \<or> length (TrimSpace line) = 0 then False
      else (case parse line of None \<Rightarrow> False | Some (n, _) \<Rightarrow> n = metricName))"

section \<open>The session model\<close>

text \<open>
  A point of a series: \<open>timeserieslinechart.TimePoint\<close>, with \<open>time.Time\<close> as an integer
  instant.
\<close>

record TimePoint =
  Time :: int
  PointValue :: real

record seriesItem =
  name :: string
  checked :: bool
  colorIdx :: nat

text \<open>
  The chart is a collaborator outside the repository. Its model keeps what the program
  hands to it: its size, the ranges of the last \<open>SetYRange\<close> and \<open>SetViewYRange\<close> calls
  (\<open>None\<close> until the program sets one), the points pushed per data set and the colour
  of each data set. Drawing on the canvas (\<open>Draw\<close>, \<open>DrawAll\<close>, \<open>Clear\<close>,
  \<open>DrawXYAxisAndLabel\<close>) changes none of these and is left out, and so is whatever the
  library derives from the data on its own.
\<close>

record chartModel =
  chartWidth :: int
  chartHeight :: int
  yRange :: "(real \<times> real) option"
  viewYRange :: "(real \<times> real) option"
  dataSets :: "(string \<times> TimePoint list) list"
  dataSetStyles :: "(string \<times> string) list"

definition chartNew :: "int \<Rightarrow> int \<Rightarrow> chartModel" where
  "chartNew w h =
     \<lparr>chartWidth = w, chartHeight = h, yRange = None, viewYRange = None,
      dataSets = [], dataSetStyles = []\<rparr>"

text \<open>
  Go's \<open>m[k] = append(m[k], v)\<close> and \<open>m[k] = v\<close> on a map, kept as an association list
  with one entry per key.
\<close>

fun appendAt :: "string \<Rightarrow> 'a \<Rightarrow> (string \<times> 'a list) list \<Rightarrow> (string \<times> 'a list) list" where
  "appendAt k v [] = [(k, [v])]"
| "appendAt k v ((k', vs) # rest) =
     (if k = k' then (k', vs @ [v]) # rest else (k', vs) # appendAt k v rest)"

fun storeAt :: "string \<Rightarrow> 'a \<Rightarrow> (string \<times> 'a) list \<Rightarrow> (string \<times> 'a) list" where
  "storeAt k v [] = [(k, v)]"
| "storeAt k v ((k', v') # rest) =
     (if k = k' then (k', v) # rest else (k', v') # storeAt k v rest)"

definition SetYRange :: "real \<Rightarrow> real \<Rightarrow> chartModel \<Rightarrow> chartModel" where
  "SetYRange lo hi c = c\<lparr>yRange := Some (lo, hi)\<rparr>"

definition SetViewYRange :: "real \<Rightarrow> real \<Rightarrow> chartModel \<Rightarrow> chartModel" where
  "SetViewYRange lo hi c = c\<lparr>viewYRange := Some (lo, hi)\<rparr>"

definition ClearAllData :: "chartModel \<Rightarrow> chartModel" where
  "ClearAllData c = c\<lparr>dataSets := []\<rparr>"

definition PushDataSet :: "string \<Rightarrow> TimePoint \<Rightarrow> chartModel \<Rightarrow> chartModel" where
  "PushDataSet n p c = c\<lparr>dataSets := appendAt n p (dataSets c)\<rparr>"

definition SetDataSetStyle :: "string \<Rightarrow> string \<Rightarrow> chartModel \<Rightarrow> chartModel" where
  "SetDataSetStyle n col c = c\<lparr>dataSetStyles := storeAt n col (dataSetStyles c)\<rparr>"

definition Resize :: "int \<Rightarrow> int \<Rightarrow> chartModel \<Rightarrow> chartModel" where
  "Resize w h c = c\<lparr>chartWidth := w, chartHeight := h\<rparr>"

text \<open>The messages of the event loop and the commands a step hands back.\<close>

datatype Msg =
    TickMsg
  | MetricsMsg "MetricSample list" "fetch_error option"
  | MetricsListMsg "string list" "fetch_error option"
  | KeyMsg string
  | WindowSizeMsg int int

datatype Cmd =
    FetchMetricCmd string string
  | FetchAllMetricsCmd string
  | TickCmd int
  | Quit
  | ListCmd
  | ViewportCmd

text \<open>
  The selectable list and the scrollable viewport are collaborators too. Their states
  are the opaque types \<open>'l\<close> and \<open>'v\<close>; the operations the program calls on them are the
  fields of \<open>widgets\<close>. A legend line is the pair of its colour and its label.
\<close>

record ('l, 'v) widgets =
  NewList :: "'l"
  SelectedItem :: "'l \<Rightarrow> string option"
  ResetFilter :: "'l \<Rightarrow> 'l"
  IsFiltering :: "'l \<Rightarrow> bool"
  SetItems :: "string list \<Rightarrow> 'l \<Rightarrow> 'l"
  SetSize :: "int \<Rightarrow> int \<Rightarrow> 'l \<Rightarrow> 'l"
  ListUpdate :: "Msg \<Rightarrow> 'l \<Rightarrow> 'l"
  NewViewport :: "int \<Rightarrow> int \<Rightarrow> 'v"
  SetViewportSize :: "int \<Rightarrow> int \<Rightarrow> 'v \<Rightarrow> 'v"
  SetContent :: "(string \<times> string) list \<Rightarrow> 'v \<Rightarrow> 'v"
  ViewportUpdate :: "Msg \<Rightarrow> 'v \<Rightarrow> 'v"

text \<open>
  The \<open>Model\<close> struct. The cursor and the scroll offset of the series picker are Go
  \<open>int\<close>s that the program only ever sets to 0, increments and decrements above 0; they
  are natural numbers here.
\<close>

record ('l, 'v) Model =
  url :: string
  metricName :: string
  interval :: int
  chart :: chartModel
  lastValues :: "(string \<times> real) list"
  dataHistory :: "(string \<times> TimePoint list) list"
  lastUpdate :: int
  err :: "fetch_error option"
  width :: int
  height :: int
  selectMode :: bool
  metricsList :: "'l"
  seriesSelectMode :: bool
  seriesList :: "seriesItem list"
  seriesListScroll :: nat
  seriesListSelected :: nat
  showLegend :: bool
  termWidth :: int
  termHeight :: int
  seriesColors :: "string list"
  legendViewport :: "'v"
  yRangeSet :: bool

definition legendBoxWidth :: int where
  "legendBoxWidth = 35"

definition legendContentPad :: int where
  "legendContentPad = 1"

definition legendInnerDimensions :: "int \<Rightarrow> int \<times> int" where
  "legendInnerDimensions totalHeight =
     (max (legendBoxWidth - 2 - 2 * legendContentPad) 1, max (totalHeight - 4) 1)"

definition newLegendViewport :: "('l, 'v) widgets \<Rightarrow> int \<Rightarrow> 'v" where
  "newLegendViewport w totalHeight =
     (case legendInnerDimensions totalHeight of (vw, vh) \<Rightarrow> NewViewport w vw vh)"

definition palette :: "string list" where
  "palette =
     [''202'', ''46'', ''226'', ''201'', ''51'', ''208'', ''99'', ''171'',
      ''196'', ''33'', ''214'', ''40'', ''129'', ''39'', ''160'', ''45'',
      ''220'', ''135'', ''118'', ''200'', ''81'', ''227'', ''161'', ''48'',
      ''57'', ''190'', ''213'', ''38'', ''154'', ''124'', ''27'', ''141'']"

definition NewModel :: "('l, 'v) widgets \<Rightarrow> string \<Rightarrow> string \<Rightarrow> int \<Rightarrow> ('l, 'v) Model" where
  "NewModel w u metric iv =
     \<lparr>url = u, metricName = metric, interval = iv, chart = chartNew 100 20,
      lastValues = [], dataHistory = [], lastUpdate = 0, err = None,
      width = 100, height = 20, selectMode = False, metricsList = NewList w,
      seriesSelectMode = False, seriesList = [], seriesListScroll = 0,
      seriesListSelected = 0, showLegend = False, termWidth = 0, termHeight = 0,
      seriesColors = palette, legendViewport = newLegendViewport w 20,
      yRangeSet = False\<rparr>"

section \<open>Rendering helpers\<close>

text \<open>
  \<open>seriesColors\<close> always holds the 32 colours of \<open>NewModel\<close>, so the remainder
  \<open>colorIdx % len(m.seriesColors)\<close> never divides by zero.
\<close>

definition colourOf :: "string list \<Rightarrow> nat \<Rightarrow> string" where
  "colourOf cols idx = cols ! (idx mod length cols)"

fun redrawSeries :: "seriesItem list \<Rightarrow> (string \<times> TimePoint list) list \<Rightarrow> string list \<Rightarrow> chartModel \<Rightarrow> chartModel" where
  "redrawSeries [] h cols c = c"
| "redrawSeries (series # rest) h cols c =
     (if \<not> checked series then redrawSeries rest h cols c
      else (case map_of h (name series) of
              None \<Rightarrow> redrawSeries rest h cols c
            | Some data \<Rightarrow>
                redrawSeries rest h cols
                  (foldl (\<lambda>c' point. PushDataSet (name series) point c')
                     (SetDataSetStyle (name series) (colourOf cols (colorIdx series)) c) data)))"

definition redrawChart :: "('l, 'v) Model \<Rightarrow> ('l, 'v) Model" where
  "redrawChart m =
     m\<lparr>chart := redrawSeries (seriesList m) (dataHistory m) (seriesColors m) (ClearAllData (chart m))\<rparr>"

definition legendLabelOf :: "string \<Rightarrow> string" where
  "legendLabelOf n =
     (let legendLabel = (case IndexBrace n of Some idx \<Rightarrow> drop idx n | None \<Rightarrow> ''{}'')
      in if length legendLabel > 30 then take 27 legendLabel @ ''...'' else legendLabel)"

fun legendLines :: "seriesItem list \<Rightarrow> (string \<times> TimePoint list) list \<Rightarrow> string list \<Rightarrow> (string \<times> string) list" where
  "legendLines [] h cols = []"
| "legendLines (series # rest) h cols =
     (if \<not> checked series then legendLines rest h cols
      else (case map_of h (name series) of
              None \<Rightarrow> legendLines rest h cols
            | Some _ \<Rightarrow>
                (colourOf cols (colorIdx series), legendLabelOf (name series)) # legendLines rest h cols))"

definition rebuildLegend :: "('l, 'v) widgets \<Rightarrow> ('l, 'v) Model \<Rightarrow> ('l, 'v) Model" where
  "rebuildLegend w m =
     m\<lparr>legendViewport :=
         SetContent w (legendLines (seriesList m) (dataHistory m) (seriesColors m)) (legendViewport m)\<rparr>"

definition updateLegendViewportSize :: "('l, 'v) widgets \<Rightarrow> ('l, 'v) Model \<Rightarrow> ('l, 'v) Model" where
  "updateLegendViewportSize w m =
     (if \<not> showLegend m then m
      else (case legendInnerDimensions (height m) of
              (vw, vh) \<Rightarrow> m\<lparr>legendViewport := SetViewportSize w vw vh (legendViewport m)\<rparr>))"

definition resizeChart :: "('l, 'v) widgets \<Rightarrow> ('l, 'v) Model \<Rightarrow> ('l, 'v) Model" where
  "resizeChart w m =
     (if termWidth m = 0 \<or> termHeight m = 0 then m
      else
        let headerFooterHeight = (if err m \<noteq> None then 9 + 2 else 9);
            chartWidth0 = termWidth m - 6;
            chartWidth1 = (if showLegend m then chartWidth0 - 38 else chartWidth0);
            chartHeight0 = termHeight m - headerFooterHeight;
            chartWidth2 = (if chartWidth1 < 40 then 40 else chartWidth1);
            chartHeight2 = (if chartHeight0 < 10 then 10 else chartHeight0);
            m1 = (if chartWidth2 \<noteq> width m \<or> chartHeight2 \<noteq> height m
                  then m\<lparr>width := chartWidth2, height := chartHeight2,
                         chart := Resize chartWidth2 chartHeight2 (chart m)\<rparr>
                  else m)
        in updateLegendViewportSize w m1)"

section \<open>Handling a scrape result\<close>

text \<open>
  The series registry (main.go, the block under "Update series list when new samples
  arrive"): \<open>existingSeries\<close> holds the names already listed; every sample whose name is
  not among them is appended, checked, with the length of the list as its colour index.
\<close>

fun reconcileLoop :: "MetricSample list \<Rightarrow> seriesItem list \<Rightarrow> string set \<Rightarrow> seriesItem list" where
  "reconcileLoop [] sl existingSeries = sl"
| "reconcileLoop (sample # rest) sl existingSeries =
     (let displayName = FullName sample in
      if displayName \<notin> existingSeries
      then reconcileLoop rest
             (sl @ [\<lparr>name = displayName, checked = True, colorIdx = length sl\<rparr>])
             (insert displayName existingSeries)
      else reconcileLoop rest sl existingSeries)"

definition reconcile :: "seriesItem list \<Rightarrow> MetricSample list \<Rightarrow> seriesItem list" where
  "reconcile sl samples = reconcileLoop samples sl (set (map name sl))"

text \<open>The program's own \<open>abs\<close>.\<close>

definition abs_float :: "real \<Rightarrow> real" where
  "abs_float x = (if x < 0 then - x else x)"

text \<open>
  The initial Y range (main.go, the block under "Update Y range dynamically if needed"),
  run on a batch with at least one sample: the minimum and maximum of the values, then
  the bounds \<open>minVal * 0.9\<close> and \<open>maxVal * 1.1\<close>, then the edge case of equal bounds.
\<close>

fun minMaxLoop :: "MetricSample list \<Rightarrow> real \<times> real \<Rightarrow> real \<times> real" where
  "minMaxLoop [] (minVal, maxVal) = (minVal, maxVal)"
| "minMaxLoop (sample # rest) (minVal, maxVal) =
     minMaxLoop rest
       (if Value sample < minVal then Value sample else minVal,
        if Value sample > maxVal then Value sample else maxVal)"

definition computeInitialRange :: "MetricSample list \<Rightarrow> real \<times> real" where
  "computeInitialRange samples =
     (case minMaxLoop samples (Value (samples ! 0), Value (samples ! 0)) of
        (minVal, maxVal) \<Rightarrow>
          let minY = minVal * 0.9; maxY = maxVal * 1.1 in
          if minY = maxY
          then (if minVal = 0 then (- 1, 1)
                else let delta = abs_float minVal * 0.1 in (minVal - delta, maxVal + delta))
          else (minY, maxY))"

text \<open>
  The loop "Process each sample and push to appropriate dataset": \<open>pushSample i\<close> is its
  body for the sample at index \<open>i\<close>.
\<close>

definition pushSample :: "nat \<Rightarrow> MetricSample \<Rightarrow> ('l, 'v) Model \<Rightarrow> ('l, 'v) Model" where
  "pushSample i sample m =
     (let point = \<lparr>Time = lastUpdate m, PointValue = Value sample\<rparr>;
          displayName = FullName sample;
          found = (if length (seriesList m) > 0
                   then (case find (\<lambda>s. name s = displayName) (seriesList m) of
                           Some s \<Rightarrow> (checked s, colorIdx s)
                         | None \<Rightarrow> (False, i mod length (seriesColors m)))
                   else (True, i mod length (seriesColors m)));
          c1 = SetDataSetStyle displayName (colourOf (seriesColors m) (snd found)) (chart m);
          c2 = (if fst found then PushDataSet displayName point c1 else c1)
      in m\<lparr>lastValues := storeAt (FullName sample) (Value sample) (lastValues m),
           dataHistory := appendAt displayName point (dataHistory m),
           chart := c2\<rparr>)"

fun pushSamples :: "nat \<Rightarrow> MetricSample list \<Rightarrow> ('l, 'v) Model \<Rightarrow> ('l, 'v) Model" where
  "pushSamples i [] m = m"
| "pushSamples i (sample # rest) m = pushSamples (Suc i) rest (pushSample i sample m)"

text \<open>
  The \<open>MetricsMsg\<close> case of \<open>Update\<close>; \<open>now\<close> is what \<open>time.Now()\<close> returns.
\<close>

definition handleMetricsMsg :: "int \<Rightarrow> MetricSample list \<Rightarrow> fetch_error option \<Rightarrow> ('l, 'v) Model \<Rightarrow> ('l, 'v) Model" where
  "handleMetricsMsg now samples e m =
     (case e of
        Some er \<Rightarrow> m\<lparr>err := Some er\<rparr>
      | None \<Rightarrow>
          let m1 = m\<lparr>err := None, lastUpdate := now\<rparr> in
          if length samples > 0 \<and> baseNameOf (FullName (samples ! 0)) \<noteq> metricName m1 then m1
          else
            let m2 = (if length samples > 0
                      then m1\<lparr>seriesList := reconcile (seriesList m1) samples\<rparr> else m1);
                m3 = (if length samples > 0 \<and> \<not> yRangeSet m2
                      then (case computeInitialRange samples of
                              (minY, maxY) \<Rightarrow>
                                m2\<lparr>chart := SetViewYRange minY maxY (SetYRange minY maxY (chart m2)),
                                    yRangeSet := True\<rparr>)
                      else m2)
            in pushSamples 0 samples m3)"

section \<open>The interaction state machine\<close>

text \<open>Series selection mode: \<open>msg.String()\<close> of a key message is the key's name.\<close>

definition updateSeriesSelect :: "('l, 'v) widgets \<Rightarrow> Msg \<Rightarrow> ('l, 'v) Model \<Rightarrow> ('l, 'v) Model \<times> Cmd list" where
  "updateSeriesSelect w msg m =
     (case msg of
        KeyMsg k \<Rightarrow>
          if k = ''ctrl+c'' then (m, [Quit])
          else if k = ''q'' \<or> k = ''esc'' then (m\<lparr>seriesSelectMode := False\<rparr>, [])
          else if k = ''enter''
            then (rebuildLegend w (redrawChart (m\<lparr>seriesSelectMode := False\<rparr>)), [])
          else if k = '' ''
            then (if length (seriesList m) > 0 \<and> seriesListSelected m < length (seriesList m)
                  then m\<lparr>seriesList :=
                          (seriesList m)[seriesListSelected m :=
                            (seriesList m ! seriesListSelected m)
                              \<lparr>checked := \<not> checked (seriesList m ! seriesListSelected m)\<rparr>]\<rparr>
                  else m, [])
          else if k = ''a''
            then (let allChecked = list_all checked (seriesList m) in
                  m\<lparr>seriesList := map (\<lambda>s. s\<lparr>checked := \<not> allChecked\<rparr>) (seriesList m)\<rparr>, [])
          else if k = ''up''
            then (if seriesListSelected m > 0
                  then let sel = seriesListSelected m - 1 in
                    m\<lparr>seriesListSelected := sel,
                      seriesListScroll := (if sel < seriesListScroll m then sel else seriesListScroll m)\<rparr>
                  else m, [])
          else if k = ''down''
            then (if int (seriesListSelected m) < int (length (seriesList m)) - 1
                  then let sel = seriesListSelected m + 1;
                           maxVisible = (if termHeight m - 12 < 3 then 3 else termHeight m - 12) in
                    m\<lparr>seriesListSelected := sel,
                      seriesListScroll :=
                        (if int sel \<ge> int (seriesListScroll m) + maxVisible
                         then nat (int sel - maxVisible + 1) else seriesListScroll m)\<rparr>
                  else m, [])
          else (m, [])
      | _ \<Rightarrow> (m, []))"

text \<open>
  Metric selection mode. On \<open>enter\<close> with an item highlighted the session is replaced:
  a new chart, no error, empty last values, history and series list, the zero time, and
  \<open>yRangeSet\<close> false.
\<close>

definition switchMetric :: "string \<Rightarrow> ('l, 'v) Model \<Rightarrow> ('l, 'v) Model" where
  "switchMetric i m =
     m\<lparr>metricName := i, chart := chartNew (width m) (height m), err := None,
       lastValues := [], dataHistory := [], lastUpdate := 0, yRangeSet := False,
       seriesList := [], seriesListSelected := 0, seriesListScroll := 0\<rparr>"

definition updateSelect :: "('l, 'v) widgets \<Rightarrow> Msg \<Rightarrow> ('l, 'v) Model \<Rightarrow> ('l, 'v) Model \<times> Cmd list" where
  "updateSelect w msg m =
     (let passOn = (m\<lparr>metricsList := ListUpdate w msg (metricsList m)\<rparr>, [ListCmd]) in
      case msg of
        KeyMsg k \<Rightarrow>
          if k = ''enter''
          then let m1 = (case SelectedItem w (metricsList m) of
                           Some i \<Rightarrow> switchMetric i m
                         | None \<Rightarrow> m);
                   m2 = m1\<lparr>metricsList := ResetFilter w (metricsList m1)\<rparr>;
                   m3 = (rebuildLegend w m2)\<lparr>selectMode := False\<rparr>
               in (m3, [FetchMetricCmd (url m3) (metricName m3), TickCmd (interval m3)])
          else if k = ''ctrl+c'' then (m, [Quit])
          else if (k = ''q'' \<or> k = ''esc'') \<and> \<not> IsFiltering w (metricsList m)
            then (m\<lparr>metricsList := ResetFilter w (metricsList m), selectMode := False\<rparr>, [])
          else passOn
      | MetricsListMsg metrics e \<Rightarrow>
          (case e of
             Some er \<Rightarrow> (m\<lparr>err := Some er, selectMode := False\<rparr>, [])
           | None \<Rightarrow> (m\<lparr>metricsList := SetItems w metrics (metricsList m)\<rparr>, []))
      | _ \<Rightarrow> passOn)"

text \<open>
  Normal mode. The key \<open>r\<close> clears the chart and returns at once; the other keys and the
  resize fall through to the legend viewport.
\<close>

definition updateNormal :: "('l, 'v) widgets \<Rightarrow> Msg \<Rightarrow> ('l, 'v) Model \<Rightarrow> ('l, 'v) Model \<times> Cmd list" where
  "updateNormal w msg m =
     (let finish = (\<lambda>m'. if showLegend m'
                          then (m'\<lparr>legendViewport := ViewportUpdate w msg (legendViewport m')\<rparr>,
                                [ViewportCmd])
                          else (m', [])) in
      case msg of
        KeyMsg k \<Rightarrow>
          if k = ''q'' \<or> k = ''ctrl+c'' then (m, [Quit])
          else if k = ''m'' then (m\<lparr>selectMode := True\<rparr>, [FetchAllMetricsCmd (url m)])
          else if k = ''l''
            then finish (resizeChart w (rebuildLegend w (m\<lparr>showLegend := \<not> showLegend m\<rparr>)))
          else if k = ''s''
            then finish (if length (dataHistory m) > 0
                         then m\<lparr>seriesSelectMode := True, seriesListSelected := 0,
                                seriesListScroll := 0\<rparr>
                         else m)
          else if k = ''r'' then (m\<lparr>chart := ClearAllData (chart m)\<rparr>, [])
          else finish m
      | WindowSizeMsg tw th \<Rightarrow>
          (let m1 = m\<lparr>termWidth := tw, termHeight := th\<rparr> in
           finish (if \<not> selectMode m1 then resizeChart w m1
                   else m1\<lparr>metricsList := SetSize w (tw - 4) (th - 10) (metricsList m1)\<rparr>))
      | _ \<Rightarrow> finish m)"

text \<open>
  \<open>Update\<close>: ticks and scrape results are handled in every mode; everything else goes to
  the handler of the current mode, series selection first.
\<close>

definition Update :: "('l, 'v) widgets \<Rightarrow> int \<Rightarrow> Msg \<Rightarrow> ('l, 'v) Model \<Rightarrow> ('l, 'v) Model \<times> Cmd list" where
  "Update w now msg m =
     (case msg of
        TickMsg \<Rightarrow> (m, [FetchMetricCmd (url m) (metricName m), TickCmd (interval m)])
      | MetricsMsg samples e \<Rightarrow> (handleMetricsMsg now samples e m, [])
      | _ \<Rightarrow>
          if seriesSelectMode m then updateSeriesSelect w msg m
          else if selectMode m then updateSelect w msg m
          else updateNormal w msg m)"

text \<open>
  The plainest widgets, for running the model on concrete sessions: a list that
  highlights its first item and never filters, and a viewport that keeps its content.
\<close>

definition plainWidgets :: "(string list, (string \<times> string) list) widgets" where
  "plainWidgets =
     \<lparr>NewList = [], SelectedItem = (\<lambda>l. case l of [] \<Rightarrow> None | x # _ \<Rightarrow> Some x),
      ResetFilter = (\<lambda>l. l), IsFiltering = (\<lambda>l. False), SetItems = (\<lambda>items l. items),
      SetSize = (\<lambda>w h l. l), ListUpdate = (\<lambda>msg l. l), NewViewport = (\<lambda>w h. []),
      SetViewportSize = (\<lambda>w h v. v), SetContent = (\<lambda>content v. content),
      ViewportUpdate = (\<lambda>msg v. v)\<rparr>"

text \<open>Two sessions agree on the display range and on its lock.\<close>

definition sameRange :: "('l, 'v) Model \<Rightarrow> ('l, 'v) Model \<Rightarrow> bool" where
  "sameRange m m' \<longleftrightarrow>
     yRange (chart m') = yRange (chart m) \<and> viewYRange (chart m') = viewYRange (chart m) \<and>
     yRangeSet m' = yRangeSet m"

text \<open>
  A session of the metric \<open>up\<close> after its first batch: one sample of value 5, scraped at
  time 1.
\<close>

definition demoSession :: "(string list, (string \<times> string) list) Model" where
  "demoSession =
     fst (Update plainWidgets 1 (MetricsMsg [\<lparr>FullName = ''up{}'', Value = 5\<rparr>] None)
            (NewModel plainWidgets ''u'' ''up'' 2))"

section \<open>Facts about the string functions\<close>

lemma fieldsFrom_blank:
  "list_all isSpace s \<Longrightarrow> fieldsFrom [] s = []"
  by (induction s) simp_all

lemma TrimSpace_empty_all_space:
  assumes "TrimSpace s = []"
  shows "list_all isSpace s"
proof -
  from assms have a: "dropWhile isSpace (rev (dropWhile isSpace s)) = []"
    by (simp add: TrimSpace_def)
  have "dropWhile isSpace s = []"
  proof (rule ccontr)
    assume ne: "dropWhile isSpace s \<noteq> []"
    then have "\<not> isSpace (hd (dropWhile isSpace s))"
      by (rule hd_dropWhile)
    moreover from a have "\<forall>x \<in> set (rev (dropWhile isSpace s)). isSpace x"
      by simp
    moreover from ne have "hd (dropWhile isSpace s) \<in> set (rev (dropWhile isSpace s))"
      by simp
    ultimately show False by blast
  qed
  then show ?thesis
    by (simp add: list_all_iff)
qed

lemma Fields_blank: "length (TrimSpace s) = 0 \<Longrightarrow> Fields s = []"
  by (simp add: Fields_def fieldsFrom_blank TrimSpace_empty_all_space)




lemma scanSeries_map_filter: "scanSeries body lines acc = acc @ List.map_filter body lines"
  by (induction lines arbitrary: acc) (auto split: option.splits)

lemma map_filter_Nil_iff: "List.map_filter f xs = [] \<longleftrightarrow> (\<forall>x\<in>set xs. f x = None)"
  by (induction xs) (auto split: option.splits)

lemma sampleOfLine_accepted:
  "sampleOfLine pf mn line \<noteq> None \<longleftrightarrow> acceptedFor (parseMetricLine pf) mn line"
  by (auto simp: sampleOfLine_def acceptedFor_def parseMetricLine_def Let_def split: option.splits if_splits)

lemma sampleOfLine_metrics_accepted:
  "sampleOfLine_metrics pf mn line \<noteq> None \<longleftrightarrow> acceptedFor (parseMetricLine_metrics pf) mn line"
  by (auto simp: sampleOfLine_metrics_def acceptedFor_def parseMetricLine_metrics_def Let_def split: option.splits if_splits)

section \<open>The parser's value resolution\<close>

text \<open>
  Claim C1, as amended. The repository holds two parsers. In main.go, \<open>parseMetricLine\<close>
  rejects a line of fewer than two fields; otherwise it takes the last field as the
  value if that is a number, else, when there are at least three fields, the field before
  the last if that is a number, and rejects the line in every other case. In metrics.go,
  \<open>parseMetricLine\<close> takes the second field as the value and rejects the line when it is
  not a number, whatever follows. The accepted name is the first field up to its first
  brace. On the line \<open>name 7.89 not_a_number\<close> both yield the value 7.89.
\<close>

theorem parse_value_resolution:
  "(length (Fields line) < 2 \<longrightarrow> parseMetricLine pf line = None) \<and>
   (2 \<le> length (Fields line) \<and> pf (last (Fields line)) = Some v \<longrightarrow>
      parseMetricLine pf line = Some (baseNameOf (hd (Fields line)), v)) \<and>
   (3 \<le> length (Fields line) \<and> pf (last (Fields line)) = None \<and> pf (last (butlast (Fields line))) = Some v \<longrightarrow>
      parseMetricLine pf line = Some (baseNameOf (hd (Fields line)), v)) \<and>
   (3 \<le> length (Fields line) \<and> pf (last (Fields line)) = None \<and> pf (last (butlast (Fields line))) = None \<longrightarrow>
      parseMetricLine pf line = None) \<and>
   (length (Fields line) = 2 \<and> pf (last (Fields line)) = None \<longrightarrow> parseMetricLine pf line = None) \<and>
   (2 \<le> length (Fields line) \<longrightarrow>
      parseMetricLine_metrics pf line =
        map_option (\<lambda>x. (baseNameOf (hd (Fields line)), x)) (pf (Fields line ! 1))) \<and>
   (length (Fields line) < 2 \<longrightarrow> parseMetricLine_metrics pf line = None) \<and>
   (pf ''7.89'' = Some v \<and> pf ''not_a_number'' = None \<longrightarrow>
      parseMetricLine pf ''name 7.89 not_a_number'' = Some (''name'', v) \<and>
      parseMetricLine_metrics pf ''name 7.89 not_a_number'' = Some (''name'', v))"
proof -
  define parts where "parts = Fields line"
  have ex: "Fields ''name 7.89 not_a_number'' = [''name'', ''7.89'', ''not_a_number'']"
    by (simp add: Fields_def isSpace_def)
  have nf: "parseMetricLine pf line =
      (case (case pf (last parts) of
               Some x \<Rightarrow> Some x
             | None \<Rightarrow> if 3 \<le> length parts then pf (last (butlast parts)) else None) of
         None \<Rightarrow> None
       | Some x \<Rightarrow> Some (baseNameOf (hd parts), x))"
    and nf_metrics: "parseMetricLine_metrics pf line =
      map_option (\<lambda>x. (baseNameOf (hd parts), x)) (pf (parts ! 1))"
    if two: "2 \<le> length parts"
  proof -
    from two have ne: "parts \<noteq> []" by auto
    then have e1: "parts ! (length parts - Suc 0) = last parts"
      by (simp add: last_conv_nth)
    from two have "butlast parts \<noteq> []"
      by (cases parts rule: rev_cases) auto
    then have "last (butlast parts) = butlast parts ! (length (butlast parts) - 1)"
      by (rule last_conv_nth)
    also have "\<dots> = parts ! (length parts - 2)"
      using two by (simp add: nth_butlast numeral_2_eq_2)
    finally have e2: "parts ! (length parts - 2) = last (butlast parts)" by simp
    from ne have e3: "parts ! 0 = hd parts"
      by (simp add: hd_conv_nth)
    from two show "parseMetricLine pf line =
      (case (case pf (last parts) of
               Some x \<Rightarrow> Some x
             | None \<Rightarrow> if 3 \<le> length parts then pf (last (butlast parts)) else None) of
         None \<Rightarrow> None
       | Some x \<Rightarrow> Some (baseNameOf (hd parts), x))"
      by (simp add: parseMetricLine_def parts_def [symmetric] Let_def e1 e2 e3
          split: option.splits)
    from two show "parseMetricLine_metrics pf line =
      map_option (\<lambda>x. (baseNameOf (hd parts), x)) (pf (parts ! 1))"
      by (simp add: parseMetricLine_metrics_def parts_def [symmetric] Let_def e3
          split: option.splits)
  qed
  have a: "length parts < 2 \<longrightarrow> parseMetricLine pf line = None"
    by (simp add: parseMetricLine_def parts_def [symmetric])
  have b: "2 \<le> length parts \<and> pf (last parts) = Some v \<longrightarrow>
      parseMetricLine pf line = Some (baseNameOf (hd parts), v)"
    by (simp add: nf)
  have c: "3 \<le> length parts \<and> pf (last parts) = None \<and> pf (last (butlast parts)) = Some v \<longrightarrow>
      parseMetricLine pf line = Some (baseNameOf (hd parts), v)"
    by (simp add: nf)
  have d: "3 \<le> length parts \<and> pf (last parts) = None \<and> pf (last (butlast parts)) = None \<longrightarrow>
      parseMetricLine pf line = None"
    by (simp add: nf)
  have e: "length parts = 2 \<and> pf (last parts) = None \<longrightarrow> parseMetricLine pf line = None"
    by (simp add: nf)
  have f: "2 \<le> length parts \<longrightarrow>
      parseMetricLine_metrics pf line =
        map_option (\<lambda>x. (baseNameOf (hd parts), x)) (pf (parts ! 1))"
    by (simp add: nf_metrics)
  have g: "length parts < 2 \<longrightarrow> parseMetricLine_metrics pf line = None"
    by (simp add: parseMetricLine_metrics_def parts_def [symmetric])
  have i: "pf ''7.89'' = Some v \<and> pf ''not_a_number'' = None \<longrightarrow>
      parseMetricLine pf ''name 7.89 not_a_number'' = Some (''name'', v) \<and>
      parseMetricLine_metrics pf ''name 7.89 not_a_number'' = Some (''name'', v)"
    by (simp add: parseMetricLine_def parseMetricLine_metrics_def ex baseNameOf_def)
  from a b c d e f g i show ?thesis unfolding parts_def by blast
qed

text \<open>
  The theorem at concrete lines, one for each of its cases, with \<open>decimalFloat\<close> as the
  number parser.
\<close>

theorem parse_value_resolution_witness:
  "parseMetricLine decimalFloat ''name 7.89 not_a_number'' = Some (''name'', 7.89) \<and>
   parseMetricLine_metrics decimalFloat ''name 7.89 not_a_number'' = Some (''name'', 7.89) \<and>
   parseMetricLine decimalFloat ''name 1 2'' = Some (''name'', 2) \<and>
   parseMetricLine_metrics decimalFloat ''name 1 2'' = Some (''name'', 1) \<and>
   parseMetricLine decimalFloat ''name x y'' = None \<and>
   parseMetricLine decimalFloat ''name x'' = None \<and>
   parseMetricLine decimalFloat ''name'' = None \<and>
   parseMetricLine_metrics decimalFloat ''name'' = None"
proof -
  have f1: "Fields ''name 7.89 not_a_number'' = [''name'', ''7.89'', ''not_a_number'']"
    and f2: "Fields ''name 1 2'' = [''name'', ''1'', ''2'']"
    and f3: "Fields ''name x y'' = [''name'', ''x'', ''y'']"
    and f4: "Fields ''name x'' = [''name'', ''x'']"
    and f5: "Fields ''name'' = [''name'']"
    by (simp_all add: Fields_def isSpace_def)
  have p: "decimalFloat ''7.89'' = Some 7.89" "decimalFloat ''not_a_number'' = None"
    "decimalFloat ''1'' = Some 1" "decimalFloat ''2'' = Some 2"
    "decimalFloat ''x'' = None" "decimalFloat ''y'' = None"
    by (simp_all add: decimalFloat_def unsignedDecimal_def digitVal_def)
  have b: "baseNameOf ''name'' = ''name''"
    by (simp add: baseNameOf_def)
  show ?thesis
    using parse_value_resolution [of "''name 7.89 not_a_number''" decimalFloat "7.89"]
      parse_value_resolution [of "''name 1 2''" decimalFloat 2]
      parse_value_resolution [of "''name 1 2''" decimalFloat 1]
      parse_value_resolution [of "''name x y''" decimalFloat 0]
      parse_value_resolution [of "''name x''" decimalFloat 0]
      parse_value_resolution [of "''name''" decimalFloat 0]
    by (simp add: f1 f2 f3 f4 f5 p b)
qed

text \<open>
  Claim C1 as stated fails on the parser of metrics.go: on \<open>name abc 5\<close> the last field
  is the number 5 and the line is rejected; on \<open>name 1 2\<close> the last field is the number
  2 and the value is 1.
\<close>

theorem parse_value_counterexample:
  "decimalFloat (last (Fields ''name abc 5'')) = Some 5 \<and>
   parseMetricLine_metrics decimalFloat ''name abc 5'' = None \<and>
   decimalFloat (last (Fields ''name 1 2'')) = Some 2 \<and>
   parseMetricLine_metrics decimalFloat ''name 1 2'' = Some (''name'', 1)"
  by (simp add: parseMetricLine_metrics_def Fields_def isSpace_def baseNameOf_def
      decimalFloat_def unsignedDecimal_def digitVal_def)

section \<open>Blank lines and comment lines\<close>

lemma sampleOfLine_skip:
  "HasPrefixHash line \<or> length (TrimSpace line) = 0 \<Longrightarrow> sampleOfLine pf mn line = None"
  "HasPrefixHash line \<or> length (TrimSpace line) = 0 \<Longrightarrow> sampleOfLine_metrics pf mn line = None"
  by (simp_all add: sampleOfLine_def sampleOfLine_metrics_def)

text \<open>
  Claim C7, as amended. A line that is empty after trimming white space is rejected by
  the parser, in main.go and in metrics.go. Comment lines are not the parser's business:
  the scrape loops skip a line whose first byte is \<open>#\<close>, and a blank line, before they
  parse it, so such a line adds no metric name and no sample.
\<close>

theorem blank_and_comment_lines:
  "(length (TrimSpace line) = 0 \<longrightarrow>
      parseMetricLine pf line = None \<and> parseMetricLine_metrics pf line = None) \<and>
   (HasPrefixHash line \<or> length (TrimSpace line) = 0 \<longrightarrow>
      scanMetrics parse (line # rest) metrics = scanMetrics parse rest metrics \<and>
      sampleOfLine pf mn line = None \<and> sampleOfLine_metrics pf mn line = None)"
proof -
  have "parseMetricLine pf line = None \<and> parseMetricLine_metrics pf line = None"
    if "length (TrimSpace line) = 0"
    using Fields_blank [OF that]
    by (simp add: parseMetricLine_def parseMetricLine_metrics_def)
  moreover have "scanMetrics parse (line # rest) metrics = scanMetrics parse rest metrics"
    if "HasPrefixHash line \<or> length (TrimSpace line) = 0"
    using that by auto
  ultimately show ?thesis
    using sampleOfLine_skip [of line pf mn] by blast
qed

text \<open>The theorem at a blank line and at a comment line.\<close>

theorem blank_and_comment_lines_witness:
  "length (TrimSpace ''   '') = 0 \<and>
   parseMetricLine decimalFloat ''   '' = None \<and>
   parseMetricLine_metrics decimalFloat ''   '' = None \<and>
   HasPrefixHash ''# HELP up 1'' \<and>
   scanMetrics (parseMetricLine decimalFloat) [''# HELP up 1''] {} = {} \<and>
   sampleOfLine decimalFloat ''#'' ''# HELP up 1'' = None \<and>
   sampleOfLine_metrics decimalFloat ''#'' ''# HELP up 1'' = None"
proof -
  have t: "length (TrimSpace ''   '') = 0"
    by (simp add: TrimSpace_def isSpace_def)
  have h: "HasPrefixHash ''# HELP up 1''"
    by (simp add: HasPrefixHash_def)
  show ?thesis
    using blank_and_comment_lines [of "''   ''" decimalFloat "parseMetricLine decimalFloat" "[]" "{}" "''#''"]
      blank_and_comment_lines [of "''# HELP up 1''" decimalFloat "parseMetricLine decimalFloat" "[]" "{}" "''#''"]
      t h
    by simp
qed

text \<open>
  Claim C7 as stated fails: the parser itself accepts the comment line \<open># 5\<close> with the
  name \<open>#\<close>, and a comment line that starts with a space is not skipped by the scrape
  loop either, so that discovery reports the metric name \<open>#\<close>.
\<close>

theorem comment_line_counterexample:
  "parseMetricLine decimalFloat ''# 5'' = Some (''#'', 5) \<and>
   parseMetricLine_metrics decimalFloat ''# 5'' = Some (''#'', 5) \<and>
   parseMetricLine decimalFloat '' # HELP up 1'' = Some (''#'', 1) \<and>
   fetchAllMetrics (parseMetricLine decimalFloat) (HttpResponse 200 ['' # HELP up 1'']) = Inr [''#'']"
  by (simp add: parseMetricLine_def parseMetricLine_metrics_def Fields_def isSpace_def
      baseNameOf_def decimalFloat_def unsignedDecimal_def digitVal_def fetchAllMetrics_def
      HasPrefixHash_def TrimSpace_def)

section \<open>Errors of the series fetch\<close>

lemma fetchSeriesWith_ok:
  "fetchSeriesWith body (HttpResponse 200 ls) mn =
     (if List.map_filter body ls = [] then Inl (MetricNotFound mn)
      else Inr (List.map_filter body ls))"
  by (simp add: fetchSeriesWith_def scanSeries_map_filter Let_def)

lemma fetchSeriesWith_cases:
  assumes acc: "\<And>l. body l \<noteq> None \<longleftrightarrow> acc l"
  shows
  "(resp = TransportFailure e \<longrightarrow> fetchSeriesWith body resp mn = Inl (FetchFailed e)) \<and>
   (resp = HttpResponse c ls \<and> c \<noteq> 200 \<longrightarrow>
      fetchSeriesWith body resp mn = Inl (UnexpectedStatus c)) \<and>
   (resp = HttpResponse 200 ls \<and> (\<forall>l\<in>set ls. \<not> acc l) \<longrightarrow>
      fetchSeriesWith body resp mn = Inl (MetricNotFound mn)) \<and>
   (resp = HttpResponse 200 ls \<and> (\<exists>l\<in>set ls. acc l) \<longrightarrow>
      (\<exists>ss. fetchSeriesWith body resp mn = Inr ss \<and> ss \<noteq> [] \<and>
            length ss = length (filter acc ls)))"
proof -
  have none: "body l = None \<longleftrightarrow> \<not> acc l" for l
    using acc [of l] by blast
  have some: "acc l" if "body l = Some y" for l y
    using acc [of l] that by simp
  have len: "length (List.map_filter body ls) = length (filter acc ls)"
    by (induction ls) (auto simp: none some split: option.splits)
  have nil: "List.map_filter body ls = [] \<longleftrightarrow> (\<forall>l\<in>set ls. \<not> acc l)"
    by (simp add: map_filter_Nil_iff none)
  have a: "resp = TransportFailure e \<longrightarrow> fetchSeriesWith body resp mn = Inl (FetchFailed e)"
    by (simp add: fetchSeriesWith_def)
  have b: "resp = HttpResponse c ls \<and> c \<noteq> 200 \<longrightarrow>
      fetchSeriesWith body resp mn = Inl (UnexpectedStatus c)"
    by (simp add: fetchSeriesWith_def)
  have c: "resp = HttpResponse 200 ls \<and> (\<forall>l\<in>set ls. \<not> acc l) \<longrightarrow>
      fetchSeriesWith body resp mn = Inl (MetricNotFound mn)"
    using nil by (simp add: fetchSeriesWith_ok)
  have d: "resp = HttpResponse 200 ls \<and> (\<exists>l\<in>set ls. acc l) \<longrightarrow>
      (\<exists>ss. fetchSeriesWith body resp mn = Inr ss \<and> ss \<noteq> [] \<and>
            length ss = length (filter acc ls))"
    using nil len by (auto simp: fetchSeriesWith_ok)
  from a b c d show ?thesis by blast
qed

lemmas evalFetch = fetchAllMetricSeries_def fetchAllMetricSeries_metrics_def fetchSeriesWith_def
  sampleOfLine_def sampleOfLine_metrics_def HasPrefixHash_def TrimSpace_def Fields_def isSpace_def
  baseNameOf_def decimalFloat_def unsignedDecimal_def digitVal_def acceptedFor_def
  parseMetricLine_def parseMetricLine_metrics_def

text \<open>
  Claim C8. \<open>fetchAllMetricSeries\<close> fails with the transport's error when the GET fails,
  with the status error when the status is not 200, and with \<open>MetricNotFound\<close>, naming
  the requested metric, when the status is 200 and no line of the body is accepted for
  that metric; the three errors are different values. In the one remaining case, a body
  with an accepted line, it succeeds with a non-empty list, one sample per accepted
  line. This holds for the loop of main.go and for the loop of metrics.go, each with its
  own parser.
\<close>

theorem fetch_series_errors:
  "(resp = TransportFailure e \<longrightarrow>
      fetchAllMetricSeries pf resp mn = Inl (FetchFailed e) \<and>
      fetchAllMetricSeries_metrics pf resp mn = Inl (FetchFailed e)) \<and>
   (resp = HttpResponse c ls \<and> c \<noteq> 200 \<longrightarrow>
      fetchAllMetricSeries pf resp mn = Inl (UnexpectedStatus c) \<and>
      fetchAllMetricSeries_metrics pf resp mn = Inl (UnexpectedStatus c)) \<and>
   (resp = HttpResponse 200 ls \<and> (\<forall>l\<in>set ls. \<not> acceptedFor (parseMetricLine pf) mn l) \<longrightarrow>
      fetchAllMetricSeries pf resp mn = Inl (MetricNotFound mn)) \<and>
   (resp = HttpResponse 200 ls \<and> (\<exists>l\<in>set ls. acceptedFor (parseMetricLine pf) mn l) \<longrightarrow>
      (\<exists>ss. fetchAllMetricSeries pf resp mn = Inr ss \<and> ss \<noteq> [] \<and>
            length ss = length (filter (acceptedFor (parseMetricLine pf) mn) ls))) \<and>
   (resp = HttpResponse 200 ls \<and> (\<forall>l\<in>set ls. \<not> acceptedFor (parseMetricLine_metrics pf) mn l) \<longrightarrow>
      fetchAllMetricSeries_metrics pf resp mn = Inl (MetricNotFound mn)) \<and>
   (resp = HttpResponse 200 ls \<and> (\<exists>l\<in>set ls. acceptedFor (parseMetricLine_metrics pf) mn l) \<longrightarrow>
      (\<exists>ss. fetchAllMetricSeries_metrics pf resp mn = Inr ss \<and> ss \<noteq> [] \<and>
            length ss = length (filter (acceptedFor (parseMetricLine_metrics pf) mn) ls)))"
proof -
  note main = fetchSeriesWith_cases [of "sampleOfLine pf mn" "acceptedFor (parseMetricLine pf) mn"
      resp e mn c ls, OF sampleOfLine_accepted, folded fetchAllMetricSeries_def]
  note metrics = fetchSeriesWith_cases [of "sampleOfLine_metrics pf mn"
      "acceptedFor (parseMetricLine_metrics pf) mn" resp e mn c ls,
      OF sampleOfLine_metrics_accepted, folded fetchAllMetricSeries_metrics_def]
  from main metrics show ?thesis by blast
qed

text \<open>The theorem on a failed transport, a status 500, a missing metric and a match.\<close>

theorem fetch_series_errors_witness:
  "fetchAllMetricSeries decimalFloat (TransportFailure ''connection refused'') ''up'' =
     Inl (FetchFailed ''connection refused'') \<and>
   fetchAllMetricSeries_metrics decimalFloat (TransportFailure ''connection refused'') ''up'' =
     Inl (FetchFailed ''connection refused'') \<and>
   fetchAllMetricSeries decimalFloat (HttpResponse 500 [''up 1'']) ''up'' =
     Inl (UnexpectedStatus 500) \<and>
   fetchAllMetricSeries_metrics decimalFloat (HttpResponse 500 [''up 1'']) ''up'' =
     Inl (UnexpectedStatus 500) \<and>
   fetchAllMetricSeries decimalFloat (HttpResponse 200 [''other_metric 1'']) ''missing'' =
     Inl (MetricNotFound ''missing'') \<and>
   fetchAllMetricSeries_metrics decimalFloat (HttpResponse 200 [''other_metric 1'']) ''missing'' =
     Inl (MetricNotFound ''missing'') \<and>
   (\<exists>ss. fetchAllMetricSeries decimalFloat
           (HttpResponse 200 [''up{job=a} 1.23'', ''up 2.34'', ''other_metric 5'']) ''up'' = Inr ss \<and>
         ss \<noteq> [] \<and> length ss = 2) \<and>
   (\<exists>ss. fetchAllMetricSeries_metrics decimalFloat
           (HttpResponse 200 [''up{job=a} 1.23'', ''up 2.34'', ''other_metric 5'']) ''up'' = Inr ss \<and>
         ss \<noteq> [] \<and> length ss = 2)"
proof -
  define down where "down = TransportFailure ''connection refused''"
  define boom where "boom = HttpResponse 500 [''up 1'']"
  define other where "other = [''other_metric 1'']"
  define ls where "ls = [''up{job=a} 1.23'', ''up 2.34'', ''other_metric 5'']"
  have a1: "\<forall>l\<in>set other. \<not> acceptedFor (parseMetricLine decimalFloat) ''missing'' l"
    and a2: "\<forall>l\<in>set other. \<not> acceptedFor (parseMetricLine_metrics decimalFloat) ''missing'' l"
    by (simp_all add: other_def evalFetch)
  have b1: "length (filter (acceptedFor (parseMetricLine decimalFloat) ''up'') ls) = 2"
    and b2: "length (filter (acceptedFor (parseMetricLine_metrics decimalFloat) ''up'') ls) = 2"
    by (simp_all add: ls_def evalFetch)
  have c1: "\<exists>l\<in>set ls. acceptedFor (parseMetricLine decimalFloat) ''up'' l"
    and c2: "\<exists>l\<in>set ls. acceptedFor (parseMetricLine_metrics decimalFloat) ''up'' l"
    by (simp_all add: ls_def evalFetch)
  have w1: "fetchAllMetricSeries decimalFloat down ''up'' = Inl (FetchFailed ''connection refused'') \<and>
      fetchAllMetricSeries_metrics decimalFloat down ''up'' = Inl (FetchFailed ''connection refused'')"
    using fetch_series_errors [of down "''connection refused''" decimalFloat "''up''"]
    by (simp add: down_def)
  have w2: "fetchAllMetricSeries decimalFloat boom ''up'' = Inl (UnexpectedStatus 500) \<and>
      fetchAllMetricSeries_metrics decimalFloat boom ''up'' = Inl (UnexpectedStatus 500)"
    using fetch_series_errors [of boom _ decimalFloat "''up''" 500 "[''up 1'']"]
    by (simp add: boom_def)
  have w3: "fetchAllMetricSeries decimalFloat (HttpResponse 200 other) ''missing'' =
        Inl (MetricNotFound ''missing'') \<and>
      fetchAllMetricSeries_metrics decimalFloat (HttpResponse 200 other) ''missing'' =
        Inl (MetricNotFound ''missing'')"
    using fetch_series_errors [of "HttpResponse 200 other" _ decimalFloat "''missing''" 200 other]
      a1 a2
    by blast
  have w4: "(\<exists>ss. fetchAllMetricSeries decimalFloat (HttpResponse 200 ls) ''up'' = Inr ss \<and>
         ss \<noteq> [] \<and> length ss = 2) \<and>
      (\<exists>ss. fetchAllMetricSeries_metrics decimalFloat (HttpResponse 200 ls) ''up'' = Inr ss \<and>
         ss \<noteq> [] \<and> length ss = 2)"
    using fetch_series_errors [of "HttpResponse 200 ls" _ decimalFloat "''up''" 200 ls]
      c1 c2 b1 b2
    by metis
  from w1 w2 w3 w4 show ?thesis
    unfolding down_def boom_def other_def ls_def by blast
qed

section \<open>The names of fetched samples\<close>







section \<open>What a scrape result leaves alone\<close>

lemma pushSample_frame:
  "seriesList (pushSample i s m) = seriesList m"
  "yRangeSet (pushSample i s m) = yRangeSet m"
  "yRange (chart (pushSample i s m)) = yRange (chart m)"
  "viewYRange (chart (pushSample i s m)) = viewYRange (chart m)"
  "err (pushSample i s m) = err m"
  "lastUpdate (pushSample i s m) = lastUpdate m"
  "metricName (pushSample i s m) = metricName m"
  by (simp_all add: pushSample_def Let_def SetDataSetStyle_def PushDataSet_def)

lemma pushSamples_frame:
  "seriesList (pushSamples i ss m) = seriesList m"
  "yRangeSet (pushSamples i ss m) = yRangeSet m"
  "yRange (chart (pushSamples i ss m)) = yRange (chart m)"
  "viewYRange (chart (pushSamples i ss m)) = viewYRange (chart m)"
  "err (pushSamples i ss m) = err m"
  "lastUpdate (pushSamples i ss m) = lastUpdate m"
  "metricName (pushSamples i ss m) = metricName m"
  by (induction ss arbitrary: i m; simp add: pushSample_frame)+

lemma first_sample: "samples \<noteq> [] \<Longrightarrow> samples ! 0 = hd samples"
  by (simp add: hd_conv_nth)

lemmas evalUpdate = Update_def handleMetricsMsg_def NewModel_def plainWidgets_def reconcile_def
  computeInitialRange_def abs_float_def pushSample_def colourOf_def palette_def baseNameOf_def
  chartNew_def SetYRange_def SetViewYRange_def SetDataSetStyle_def PushDataSet_def ClearAllData_def
  newLegendViewport_def legendInnerDimensions_def legendBoxWidth_def legendContentPad_def
  updateNormal_def updateSelect_def updateSeriesSelect_def switchMetric_def rebuildLegend_def
  redrawChart_def Let_def

lemma demoSession_eval:
  "demoSession =
   (NewModel plainWidgets ''u'' ''up'' 2)
     \<lparr>chart := \<lparr>chartWidth = 100, chartHeight = 20, yRange = Some (4.5, 5.5),
                viewYRange = Some (4.5, 5.5),
                dataSets = [(''up{}'', [\<lparr>Time = 1, PointValue = 5\<rparr>])],
                dataSetStyles = [(''up{}'', ''202'')]\<rparr>,
      lastValues := [(''up{}'', 5)],
      dataHistory := [(''up{}'', [\<lparr>Time = 1, PointValue = 5\<rparr>])],
      lastUpdate := 1,
      seriesList := [\<lparr>name = ''up{}'', checked = True, colorIdx = 0\<rparr>],
      yRangeSet := True\<rparr>"
  by (simp add: demoSession_def evalUpdate)

text \<open>
  Claim C5. A scrape result with at least one sample whose first sample's base name is
  not the session's current metric changes neither the series list (names, check marks
  and colour indices) nor the history, whether the result carries an error or not.
\<close>

theorem wrong_metric_batch_discarded:
  "samples \<noteq> [] \<Longrightarrow> baseNameOf (FullName (hd samples)) \<noteq> metricName m \<Longrightarrow>
     seriesList (fst (Update w now (MetricsMsg samples e) m)) = seriesList m \<and>
     dataHistory (fst (Update w now (MetricsMsg samples e) m)) = dataHistory m"
  by (cases e) (simp_all add: Update_def handleMetricsMsg_def first_sample)

text \<open>The theorem on the session of \<open>up\<close> and a late batch of the metric \<open>down\<close>.\<close>

theorem wrong_metric_batch_discarded_witness:
  "[\<lparr>FullName = ''down{}'', Value = 1\<rparr>] \<noteq> [] \<and>
   baseNameOf (FullName (hd [\<lparr>FullName = ''down{}'', Value = 1\<rparr>])) \<noteq> metricName demoSession \<and>
   seriesList (fst (Update plainWidgets 2 (MetricsMsg [\<lparr>FullName = ''down{}'', Value = 1\<rparr>] None)
      demoSession)) = [\<lparr>name = ''up{}'', checked = True, colorIdx = 0\<rparr>] \<and>
   dataHistory (fst (Update plainWidgets 2 (MetricsMsg [\<lparr>FullName = ''down{}'', Value = 1\<rparr>] None)
      demoSession)) = [(''up{}'', [\<lparr>Time = 1, PointValue = 5\<rparr>])]"
proof -
  have g: "baseNameOf (FullName (hd [\<lparr>FullName = ''down{}'', Value = 1\<rparr>])) \<noteq> metricName demoSession"
    by (simp add: demoSession_eval NewModel_def baseNameOf_def)
  have ne: "[\<lparr>FullName = ''down{}'', Value = 1\<rparr>] \<noteq> []"
    by simp
  from wrong_metric_batch_discarded [OF ne g, of plainWidgets 2 None] g show ?thesis
    by (simp add: demoSession_eval NewModel_def)
qed

text \<open>
  Claim C10. When such a batch arrives without an error, dropping it still has two
  effects: the displayed error is cleared and the time of the last update is set to the
  current time. Nothing else of the session changes, and no command is issued.
\<close>

theorem wrong_metric_batch_side_effects:
  "samples \<noteq> [] \<Longrightarrow> baseNameOf (FullName (hd samples)) \<noteq> metricName m \<Longrightarrow>
     Update w now (MetricsMsg samples None) m = (m\<lparr>err := None, lastUpdate := now\<rparr>, [])"
  by (simp add: Update_def handleMetricsMsg_def first_sample)

text \<open>
  The theorem on the session of \<open>up\<close> showing an error, last updated at time 1, and a
  late batch of \<open>down\<close> arriving at time 7.
\<close>

theorem wrong_metric_batch_side_effects_witness:
  "err (demoSession\<lparr>err := Some (MetricNotFound ''up'')\<rparr>) = Some (MetricNotFound ''up'') \<and>
   lastUpdate (demoSession\<lparr>err := Some (MetricNotFound ''up'')\<rparr>) = 1 \<and>
   baseNameOf (FullName (hd [\<lparr>FullName = ''down{}'', Value = 1\<rparr>])) \<noteq>
     metricName (demoSession\<lparr>err := Some (MetricNotFound ''up'')\<rparr>) \<and>
   Update plainWidgets 7 (MetricsMsg [\<lparr>FullName = ''down{}'', Value = 1\<rparr>] None)
     (demoSession\<lparr>err := Some (MetricNotFound ''up'')\<rparr>) =
     (demoSession\<lparr>err := None, lastUpdate := 7\<rparr>, [])"
proof -
  have g: "baseNameOf (FullName (hd [\<lparr>FullName = ''down{}'', Value = 1\<rparr>])) \<noteq>
     metricName (demoSession\<lparr>err := Some (MetricNotFound ''up'')\<rparr>)"
    by (simp add: demoSession_eval NewModel_def baseNameOf_def)
  have ne: "[\<lparr>FullName = ''down{}'', Value = 1\<rparr>] \<noteq> []"
    by simp
  from wrong_metric_batch_side_effects [OF ne g, of plainWidgets 7] g show ?thesis
    by (simp add: demoSession_eval NewModel_def)
qed

section \<open>The display range\<close>

lemma foldl_push_ranges:
  "yRange (foldl (\<lambda>c' point. PushDataSet n point c') c ps) = yRange c \<and>
   viewYRange (foldl (\<lambda>c' point. PushDataSet n point c') c ps) = viewYRange c"
  by (induction ps arbitrary: c) (simp_all add: PushDataSet_def)

lemma redrawSeries_ranges:
  "yRange (redrawSeries sl h cols c) = yRange c \<and>
   viewYRange (redrawSeries sl h cols c) = viewYRange c"
  by (induction sl arbitrary: c)
     (simp_all add: foldl_push_ranges SetDataSetStyle_def split: option.splits)

lemma redrawChart_ranges:
  "yRange (chart (redrawChart m)) = yRange (chart m)"
  "viewYRange (chart (redrawChart m)) = viewYRange (chart m)"
  "yRangeSet (redrawChart m) = yRangeSet m"
  by (simp_all add: redrawChart_def redrawSeries_ranges ClearAllData_def)

lemma rebuildLegend_ranges:
  "chart (rebuildLegend w m) = chart m"
  "yRangeSet (rebuildLegend w m) = yRangeSet m"
  by (simp_all add: rebuildLegend_def)

lemma updateLegendViewportSize_ranges:
  "chart (updateLegendViewportSize w m) = chart m"
  "yRangeSet (updateLegendViewportSize w m) = yRangeSet m"
  by (simp_all add: updateLegendViewportSize_def split: prod.splits)

lemma resizeChart_ranges:
  "yRange (chart (resizeChart w m)) = yRange (chart m)"
  "viewYRange (chart (resizeChart w m)) = viewYRange (chart m)"
  "yRangeSet (resizeChart w m) = yRangeSet m"
  by (simp_all add: resizeChart_def Let_def updateLegendViewportSize_ranges Resize_def)

lemma updateSeriesSelect_ranges: "sameRange m (fst (updateSeriesSelect w msg m))"
  by (cases msg)
     (simp_all add: sameRange_def updateSeriesSelect_def Let_def redrawChart_ranges
        rebuildLegend_ranges)

lemma updateNormal_ranges: "sameRange m (fst (updateNormal w msg m))"
  by (cases msg)
     (simp_all add: sameRange_def updateNormal_def Let_def resizeChart_ranges
        rebuildLegend_ranges ClearAllData_def)

lemma updateSelect_ranges:
  "msg \<noteq> KeyMsg ''enter'' \<Longrightarrow> sameRange m (fst (updateSelect w msg m))"
  by (cases msg)
     (simp_all add: sameRange_def updateSelect_def Let_def split: option.splits)

text \<open>
  Claim C4. Once the range is set (\<open>yRangeSet\<close>), no message changes the Y range and
  the view range handed to the chart, or the lock, except the confirmation of a metric
  switch. In particular no scrape result does, whatever values its samples have.
\<close>

theorem range_locked:
  assumes "yRangeSet m"
    and "\<not> (msg = KeyMsg ''enter'' \<and> selectMode m \<and> \<not> seriesSelectMode m)"
  shows "yRange (chart (fst (Update w now msg m))) = yRange (chart m) \<and>
     viewYRange (chart (fst (Update w now msg m))) = viewYRange (chart m) \<and>
     yRangeSet (fst (Update w now msg m))"
proof (cases msg)
  case TickMsg
  with assms show ?thesis by (simp add: Update_def)
next
  case (MetricsMsg samples e)
  with assms(1) show ?thesis
    by (cases e) (simp_all add: Update_def handleMetricsMsg_def Let_def pushSamples_frame)
next
  case (MetricsListMsg metrics e)
  with assms(1) updateSeriesSelect_ranges [of m w msg] updateSelect_ranges [of msg m w]
    updateNormal_ranges [of m w msg]
  show ?thesis by (simp add: Update_def sameRange_def)
next
  case (KeyMsg k)
  with assms updateSeriesSelect_ranges [of m w msg] updateSelect_ranges [of msg m w]
    updateNormal_ranges [of m w msg]
  show ?thesis by (auto simp: Update_def sameRange_def)
next
  case (WindowSizeMsg tw th)
  with assms(1) updateSeriesSelect_ranges [of m w msg] updateSelect_ranges [of msg m w]
    updateNormal_ranges [of m w msg]
  show ?thesis by (simp add: Update_def sameRange_def)
qed

text \<open>
  The theorem on the session of \<open>up\<close>, whose range is 4.5 to 5.5: a batch with the
  value 100, and the key \<open>r\<close>.
\<close>

theorem range_locked_witness:
  "yRangeSet demoSession \<and> yRange (chart demoSession) = Some (4.5, 5.5) \<and> (5.5 :: real) < 100 \<and>
   yRange (chart (fst (Update plainWidgets 2 (MetricsMsg [\<lparr>FullName = ''up{}'', Value = 100\<rparr>] None)
      demoSession))) = Some (4.5, 5.5) \<and>
   viewYRange (chart (fst (Update plainWidgets 2 (MetricsMsg [\<lparr>FullName = ''up{}'', Value = 100\<rparr>] None)
      demoSession))) = Some (4.5, 5.5) \<and>
   yRangeSet (fst (Update plainWidgets 2 (MetricsMsg [\<lparr>FullName = ''up{}'', Value = 100\<rparr>] None)
      demoSession)) \<and>
   yRange (chart (fst (Update plainWidgets 2 (KeyMsg ''r'') demoSession))) = Some (4.5, 5.5) \<and>
   yRangeSet (fst (Update plainWidgets 2 (KeyMsg ''r'') demoSession))"
proof -
  have s: "yRangeSet demoSession"
    by (simp add: demoSession_eval NewModel_def)
  have r: "yRange (chart demoSession) = Some (4.5, 5.5)" "viewYRange (chart demoSession) = Some (4.5, 5.5)"
    by (simp_all add: demoSession_eval NewModel_def)
  have n: "\<not> (MetricsMsg [\<lparr>FullName = ''up{}'', Value = 100\<rparr>] None = KeyMsg ''enter'' \<and>
      selectMode demoSession \<and> \<not> seriesSelectMode demoSession)"
    by simp
  have k: "\<not> (KeyMsg ''r'' = KeyMsg ''enter'' \<and>
      selectMode demoSession \<and> \<not> seriesSelectMode demoSession)"
    by simp
  from range_locked [OF s n, of plainWidgets 2] range_locked [OF s k, of plainWidgets 2] s r
  show ?thesis
    by simp
qed

lemma first_batch_range:
  "\<not> yRangeSet m \<Longrightarrow> samples \<noteq> [] \<Longrightarrow> baseNameOf (FullName (hd samples)) = metricName m \<Longrightarrow>
     yRange (chart (fst (Update w now (MetricsMsg samples None) m))) = Some (computeInitialRange samples) \<and>
     viewYRange (chart (fst (Update w now (MetricsMsg samples None) m))) = Some (computeInitialRange samples) \<and>
     yRangeSet (fst (Update w now (MetricsMsg samples None) m))"
  by (simp add: Update_def handleMetricsMsg_def Let_def pushSamples_frame first_sample
      SetYRange_def SetViewYRange_def split: prod.splits)

text \<open>
  Claim C3, as amended. In normal mode the key \<open>r\<close> clears the data pushed to the chart
  and nothing else: history, series list, range and lock stay as they are. Confirming a
  metric switch with an item highlighted makes that item the current metric, empties
  history, last values and series list, replaces the chart by a new one and clears the
  lock. While the lock is clear, the next accepted batch with a sample sets the range to
  the initial range of its values and sets the lock.
\<close>

theorem reset_and_switch:
  "(\<not> seriesSelectMode m \<and> \<not> selectMode m \<longrightarrow>
      Update w now (KeyMsg ''r'') m = (m\<lparr>chart := ClearAllData (chart m)\<rparr>, [])) \<and>
   (selectMode m \<and> \<not> seriesSelectMode m \<and> SelectedItem w (metricsList m) = Some i \<longrightarrow>
      metricName (fst (Update w now (KeyMsg ''enter'') m)) = i \<and>
      dataHistory (fst (Update w now (KeyMsg ''enter'') m)) = [] \<and>
      lastValues (fst (Update w now (KeyMsg ''enter'') m)) = [] \<and>
      seriesList (fst (Update w now (KeyMsg ''enter'') m)) = [] \<and>
      \<not> yRangeSet (fst (Update w now (KeyMsg ''enter'') m)) \<and>
      chart (fst (Update w now (KeyMsg ''enter'') m)) = chartNew (width m) (height m)) \<and>
   (\<not> yRangeSet m \<and> samples \<noteq> [] \<and> baseNameOf (FullName (hd samples)) = metricName m \<longrightarrow>
      yRange (chart (fst (Update w now (MetricsMsg samples None) m))) =
        Some (computeInitialRange samples) \<and>
      yRangeSet (fst (Update w now (MetricsMsg samples None) m)))"
proof -
  have a: "\<not> seriesSelectMode m \<and> \<not> selectMode m \<longrightarrow>
      Update w now (KeyMsg ''r'') m = (m\<lparr>chart := ClearAllData (chart m)\<rparr>, [])"
    by (simp add: Update_def updateNormal_def)
  have b: "selectMode m \<and> \<not> seriesSelectMode m \<and> SelectedItem w (metricsList m) = Some i \<longrightarrow>
      metricName (fst (Update w now (KeyMsg ''enter'') m)) = i \<and>
      dataHistory (fst (Update w now (KeyMsg ''enter'') m)) = [] \<and>
      lastValues (fst (Update w now (KeyMsg ''enter'') m)) = [] \<and>
      seriesList (fst (Update w now (KeyMsg ''enter'') m)) = [] \<and>
      \<not> yRangeSet (fst (Update w now (KeyMsg ''enter'') m)) \<and>
      chart (fst (Update w now (KeyMsg ''enter'') m)) = chartNew (width m) (height m)"
    by (simp add: Update_def updateSelect_def Let_def switchMetric_def rebuildLegend_def)
  from a b first_batch_range [of m samples w now] show ?thesis by blast
qed

text \<open>
  The theorem on the session of \<open>up\<close>: the key \<open>r\<close>, then a switch to the metric \<open>down\<close>
  and its first batch.
\<close>

theorem reset_and_switch_witness:
  "\<not> seriesSelectMode demoSession \<and> \<not> selectMode demoSession \<and>
   Update plainWidgets 2 (KeyMsg ''r'') demoSession =
     (demoSession\<lparr>chart := ClearAllData (chart demoSession)\<rparr>, []) \<and>
   SelectedItem plainWidgets
     (metricsList (demoSession\<lparr>selectMode := True, metricsList := [''down'', ''up'']\<rparr>)) = Some ''down'' \<and>
   dataHistory (fst (Update plainWidgets 2 (KeyMsg ''enter'')
     (demoSession\<lparr>selectMode := True, metricsList := [''down'', ''up'']\<rparr>))) = [] \<and>
   seriesList (fst (Update plainWidgets 2 (KeyMsg ''enter'')
     (demoSession\<lparr>selectMode := True, metricsList := [''down'', ''up'']\<rparr>))) = [] \<and>
   \<not> yRangeSet (fst (Update plainWidgets 2 (KeyMsg ''enter'')
     (demoSession\<lparr>selectMode := True, metricsList := [''down'', ''up'']\<rparr>))) \<and>
   yRange (chart (fst (Update plainWidgets 3 (MetricsMsg [\<lparr>FullName = ''down{}'', Value = 2\<rparr>] None)
     (fst (Update plainWidgets 2 (KeyMsg ''enter'')
        (demoSession\<lparr>selectMode := True, metricsList := [''down'', ''up'']\<rparr>)))))) = Some (1.8, 2.2)"
proof -
  define picking where "picking = demoSession\<lparr>selectMode := True, metricsList := [''down'', ''up'']\<rparr>"
  define switched where "switched = fst (Update plainWidgets 2 (KeyMsg ''enter'') picking)"
  define batch where "batch = [\<lparr>FullName = ''down{}'', Value = 2\<rparr>]"
  have n: "\<not> seriesSelectMode demoSession \<and> \<not> selectMode demoSession"
    by (simp add: demoSession_eval NewModel_def)
  have p: "selectMode picking \<and> \<not> seriesSelectMode picking \<and>
      SelectedItem plainWidgets (metricsList picking) = Some ''down''"
    by (simp add: picking_def demoSession_eval NewModel_def plainWidgets_def)
  note a = reset_and_switch [of demoSession plainWidgets 2 "''down''" batch]
  note b = reset_and_switch [of picking plainWidgets 2 "''down''" batch, folded switched_def]
  from a n have r: "Update plainWidgets 2 (KeyMsg ''r'') demoSession =
      (demoSession\<lparr>chart := ClearAllData (chart demoSession)\<rparr>, [])"
    by blast
  from b p have s: "metricName switched = ''down'' \<and> dataHistory switched = [] \<and>
      seriesList switched = [] \<and> \<not> yRangeSet switched"
    by blast
  then have g: "\<not> yRangeSet switched \<and> batch \<noteq> [] \<and>
      baseNameOf (FullName (hd batch)) = metricName switched"
    by (simp add: batch_def baseNameOf_def)
  note c = reset_and_switch [of switched plainWidgets 3 "''down''" batch]
  from c g have "yRange (chart (fst (Update plainWidgets 3 (MetricsMsg batch None) switched))) =
      Some (computeInitialRange batch)"
    by blast
  moreover have "computeInitialRange batch = (1.8, 2.2)"
    by (simp add: batch_def computeInitialRange_def)
  ultimately have y: "yRange (chart (fst (Update plainWidgets 3 (MetricsMsg batch None) switched))) =
      Some (1.8, 2.2)"
    by simp
  from n r p s y show ?thesis
    unfolding switched_def picking_def batch_def by simp
qed

text \<open>
  Claim C3 as stated fails for the key \<open>r\<close>: after it the history still holds the point
  scraped before, the lock is still set, and the next batch, with the value 100, does
  not recompute the range.
\<close>

theorem reset_counterexample:
  "dataHistory (fst (Update plainWidgets 2 (KeyMsg ''r'') demoSession)) =
     [(''up{}'', [\<lparr>Time = 1, PointValue = 5\<rparr>])] \<and>
   yRangeSet (fst (Update plainWidgets 2 (KeyMsg ''r'') demoSession)) \<and>
   computeInitialRange [\<lparr>FullName = ''up{}'', Value = 100\<rparr>] = (90, 110) \<and>
   yRange (chart (fst (Update plainWidgets 3 (MetricsMsg [\<lparr>FullName = ''up{}'', Value = 100\<rparr>] None)
      (fst (Update plainWidgets 2 (KeyMsg ''r'') demoSession))))) = Some (4.5, 5.5)"
  by (simp add: demoSession_eval evalUpdate)

lemma minMaxLoop_bounds:
  "lo \<le> hi \<Longrightarrow>
   (case minMaxLoop samples (lo, hi) of
      (minVal, maxVal) \<Rightarrow>
        minVal \<le> lo \<and> hi \<le> maxVal \<and>
        (\<forall>s\<in>set samples. minVal \<le> Value s \<and> Value s \<le> maxVal) \<and>
        (minVal = lo \<or> minVal \<in> Value ` set samples) \<and>
        (maxVal = hi \<or> maxVal \<in> Value ` set samples))"
proof (induction samples arbitrary: lo hi)
  case Nil
  then show ?case by simp
next
  case (Cons s rest)
  let ?lo = "if Value s < lo then Value s else lo"
  let ?hi = "if Value s > hi then Value s else hi"
  from Cons.prems have le: "?lo \<le> ?hi" by auto
  from Cons.IH [OF le] Cons.prems show ?case
    by (auto split: prod.splits if_splits)
qed

text \<open>
  For a batch with at least one sample and no negative value, the initial range has its
  lower bound strictly below its upper bound and holds every value of the batch; when
  all values are zero it is -1 to 1.
\<close>

theorem initial_range_nonneg:
  assumes ne: "samples \<noteq> []" and pos: "\<forall>s\<in>set samples. 0 \<le> Value s"
  shows "case computeInitialRange samples of
      (minY, maxY) \<Rightarrow>
        minY < maxY \<and> (\<forall>s\<in>set samples. minY \<le> Value s \<and> Value s \<le> maxY) \<and>
        ((\<forall>s\<in>set samples. Value s = 0) \<longrightarrow> minY = - 1 \<and> maxY = 1)"
proof -
  obtain minVal maxVal where mm: "minMaxLoop samples (Value (samples ! 0), Value (samples ! 0)) = (minVal, maxVal)"
    by (cases "minMaxLoop samples (Value (samples ! 0), Value (samples ! 0))")
  from ne have first: "samples ! 0 \<in> set samples"
    by (cases samples) auto
  from minMaxLoop_bounds [of "Value (samples ! 0)" "Value (samples ! 0)" samples] mm
  have all: "\<forall>s\<in>set samples. minVal \<le> Value s \<and> Value s \<le> maxVal"
    and inmin: "minVal \<in> Value ` set samples" and inmax: "maxVal \<in> Value ` set samples"
    using first by auto
  from inmin inmax pos have p: "0 \<le> minVal" "0 \<le> maxVal" by auto
  from all first have le: "minVal \<le> maxVal" by force
  show ?thesis
  proof (cases "maxVal = 0")
    case True
    with p le have z: "minVal = 0" by simp
    from True z all have "\<forall>s\<in>set samples. - 1 \<le> Value s \<and> Value s \<le> 1"
      by force
    with True z show ?thesis
      by (simp add: computeInitialRange_def mm)
  next
    case False
    with p have gt: "0 < maxVal" by simp
    then have ne0: "\<not> (\<forall>s\<in>set samples. Value s = 0)"
      using inmax by force
    from gt p le have lt: "minVal * 0.9 < maxVal * 1.1" by simp
    have "minVal * 0.9 \<le> minVal" "maxVal \<le> maxVal * 1.1"
      using p by simp_all
    with all have "\<forall>s\<in>set samples. minVal * 0.9 \<le> Value s \<and> Value s \<le> maxVal * 1.1"
      by force
    with lt ne0 show ?thesis
      by (auto simp: computeInitialRange_def mm Let_def)
  qed
qed

text \<open>The theorem on the values 2 and 10, and on the single value 0.\<close>

theorem initial_range_nonneg_witness:
  "computeInitialRange [\<lparr>FullName = ''up{a}'', Value = 2\<rparr>, \<lparr>FullName = ''up{b}'', Value = 10\<rparr>] = (1.8, 11) \<and>
   computeInitialRange [\<lparr>FullName = ''up{}'', Value = 0\<rparr>] = (- 1, 1)"
proof -
  have a: "[\<lparr>FullName = ''up{a}'', Value = 2\<rparr>, \<lparr>FullName = ''up{b}'', Value = 10\<rparr>] \<noteq> []"
    and b: "\<forall>s\<in>set [\<lparr>FullName = ''up{a}'', Value = 2\<rparr>, \<lparr>FullName = ''up{b}'', Value = 10\<rparr>]. 0 \<le> Value s"
    and c: "[\<lparr>FullName = ''up{}'', Value = 0\<rparr>] \<noteq> []"
    and d: "\<forall>s\<in>set [\<lparr>FullName = ''up{}'', Value = 0\<rparr>]. 0 \<le> Value s"
    by simp_all
  from initial_range_nonneg [OF a b] initial_range_nonneg [OF c d] show ?thesis
    by (simp add: computeInitialRange_def)
qed

text \<open>
  Claim C2 fails on negative values. A first batch with the single value -10 sets the
  range to -9 and -11, a lower bound above the upper one; the values -10 and -5 give the
  range -9 to -5.5, which holds neither of them.
\<close>

theorem negative_batch_range:
  "yRange (chart (fst (Update plainWidgets 1
      (MetricsMsg [\<lparr>FullName = ''t{}'', Value = - 10\<rparr>] None)
      (NewModel plainWidgets ''u'' ''t'' 2)))) = Some (- 9, - 11) \<and>
   computeInitialRange [\<lparr>FullName = ''t{a}'', Value = - 10\<rparr>, \<lparr>FullName = ''t{b}'', Value = - 5\<rparr>] =
     (- 9, - 5.5)"
  by (simp add: evalUpdate)

section \<open>The series registry\<close>

lemma remdups_snoc: "remdups (ys @ [x]) = filter (\<lambda>y. y \<noteq> x) (remdups ys) @ [x]"
  by (induction ys) auto

lemma firstSeen_Cons:
  "rev (remdups (rev (x # xs))) = x # filter (\<lambda>y. y \<noteq> x) (rev (remdups (rev xs)))"
  by (simp add: remdups_snoc rev_filter)

lemma reconcileLoop_eq:
  "reconcileLoop samples sl E =
     sl @ map (\<lambda>(i, n). \<lparr>name = n, checked = True, colorIdx = i\<rparr>)
            (enumerate (length sl)
               (filter (\<lambda>n. n \<notin> E) (rev (remdups (rev (map FullName samples))))))"
proof (induction samples arbitrary: sl E)
  case Nil
  show ?case by simp
next
  case (Cons s rest)
  let ?first = "rev (remdups (rev (map FullName rest)))"
  have unfold: "rev (remdups (rev (FullName s # map FullName rest))) =
      FullName s # filter (\<lambda>y. y \<noteq> FullName s) ?first"
    by (rule firstSeen_Cons)
  show ?case
  proof (cases "FullName s \<in> E")
    case True
    then have "filter (\<lambda>n. n \<notin> E) (filter (\<lambda>y. y \<noteq> FullName s) ?first) = filter (\<lambda>n. n \<notin> E) ?first"
      by (auto intro: filter_cong)
    with True Cons.IH [of sl E] show ?thesis
      by (simp add: unfold del: remdups.simps rev.simps)
  next
    case False
    have "filter (\<lambda>n. n \<notin> E) (filter (\<lambda>y. y \<noteq> FullName s) ?first) =
        filter (\<lambda>n. n \<notin> insert (FullName s) E) ?first"
      by (auto intro: filter_cong)
    with False
      Cons.IH [of "sl @ [\<lparr>name = FullName s, checked = True, colorIdx = length sl\<rparr>]"
        "insert (FullName s) E"]
    show ?thesis
      by (simp add: unfold Let_def del: remdups.simps rev.simps)
  qed
qed

text \<open>
  Claim C6. Reconciling a batch keeps the series list as a prefix, so every known series
  keeps its record, and appends one record per name of the batch that the list does not
  hold yet, each once and in the order of first appearance
  (\<open>rev (remdups (rev xs))\<close> keeps the first occurrence of each element of \<open>xs\<close>). Every
  new record is checked and has its own position in the list as colour index; so when
  the colour indices were the positions before, they still are. The series list after an
  accepted scrape result is this reconciled list.
\<close>

theorem reconcile_registry:
  "\<exists>new. reconcile sl samples = sl @ new \<and>
     map name new =
       filter (\<lambda>n. n \<notin> set (map name sl)) (rev (remdups (rev (map FullName samples)))) \<and>
     (\<forall>i < length new. checked (new ! i) \<and> colorIdx (new ! i) = length sl + i) \<and>
     ((\<forall>i < length sl. colorIdx (sl ! i) = i) \<longrightarrow>
        (\<forall>i < length (sl @ new). colorIdx ((sl @ new) ! i) = i)) \<and>
     (seriesList m = sl \<and> samples \<noteq> [] \<and> baseNameOf (FullName (hd samples)) = metricName m \<longrightarrow>
        seriesList (fst (Update w now (MetricsMsg samples None) m)) = sl @ new)"
proof -
  define names where
    "names = filter (\<lambda>n. n \<notin> set (map name sl)) (rev (remdups (rev (map FullName samples))))"
  define new where
    "new = map (\<lambda>(i, n). \<lparr>name = n, checked = True, colorIdx = i\<rparr>) (enumerate (length sl) names)"
  have eq: "reconcile sl samples = sl @ new"
    by (simp add: reconcile_def reconcileLoop_eq new_def names_def)
  have len: "length new = length names"
    by (simp add: new_def)
  have nth: "new ! i = \<lparr>name = names ! i, checked = True, colorIdx = length sl + i\<rparr>"
    if "i < length names" for i
    using that by (simp add: new_def nth_enumerate_eq)
  have names: "map name new = names"
    by (rule nth_equalityI) (simp_all add: len nth)
  have fresh: "\<forall>i < length new. checked (new ! i) \<and> colorIdx (new ! i) = length sl + i"
    by (simp add: len nth)
  have dense: "\<forall>i < length (sl @ new). colorIdx ((sl @ new) ! i) = i"
    if "\<forall>i < length sl. colorIdx (sl ! i) = i"
  proof (intro allI impI)
    fix i
    assume "i < length (sl @ new)"
    then show "colorIdx ((sl @ new) ! i) = i"
      using that fresh by (cases "i < length sl") (auto simp: nth_append)
  qed
  have upd: "seriesList (fst (Update w now (MetricsMsg samples None) m)) = sl @ new"
    if "seriesList m = sl \<and> samples \<noteq> [] \<and> baseNameOf (FullName (hd samples)) = metricName m"
    using that eq
    by (auto simp: Update_def handleMetricsMsg_def Let_def pushSamples_frame first_sample
        split: prod.splits)
  from eq names fresh dense upd show ?thesis
    unfolding names_def by blast
qed

text \<open>
  The theorem on the series a and b observed first, then a, b and c (c twice): a keeps
  its cleared check mark, a and b keep the colour indices 0 and 1, c gets 2.
\<close>

theorem reconcile_registry_witness:
  "reconcile [] [\<lparr>FullName = ''up{a}'', Value = 1\<rparr>, \<lparr>FullName = ''up{b}'', Value = 2\<rparr>] =
     [\<lparr>name = ''up{a}'', checked = True, colorIdx = 0\<rparr>,
      \<lparr>name = ''up{b}'', checked = True, colorIdx = 1\<rparr>] \<and>
   reconcile
     [\<lparr>name = ''up{a}'', checked = False, colorIdx = 0\<rparr>,
      \<lparr>name = ''up{b}'', checked = True, colorIdx = 1\<rparr>]
     [\<lparr>FullName = ''up{a}'', Value = 3\<rparr>, \<lparr>FullName = ''up{b}'', Value = 4\<rparr>,
      \<lparr>FullName = ''up{c}'', Value = 5\<rparr>, \<lparr>FullName = ''up{c}'', Value = 6\<rparr>] =
     [\<lparr>name = ''up{a}'', checked = False, colorIdx = 0\<rparr>,
      \<lparr>name = ''up{b}'', checked = True, colorIdx = 1\<rparr>] @
     [\<lparr>name = ''up{c}'', checked = True, colorIdx = 2\<rparr>] \<and>
   map colorIdx
     [\<lparr>name = ''up{a}'', checked = False, colorIdx = 0\<rparr>,
      \<lparr>name = ''up{b}'', checked = True, colorIdx = 1\<rparr>] = [0, 1] \<and>
   map colorIdx
     (reconcile
        [\<lparr>name = ''up{a}'', checked = False, colorIdx = 0\<rparr>,
         \<lparr>name = ''up{b}'', checked = True, colorIdx = 1\<rparr>]
        [\<lparr>FullName = ''up{a}'', Value = 3\<rparr>, \<lparr>FullName = ''up{b}'', Value = 4\<rparr>,
         \<lparr>FullName = ''up{c}'', Value = 5\<rparr>, \<lparr>FullName = ''up{c}'', Value = 6\<rparr>]) = [0, 1, 2] \<and>
   seriesList (fst (Update plainWidgets 1
       (MetricsMsg [\<lparr>FullName = ''up{a}'', Value = 1\<rparr>, \<lparr>FullName = ''up{b}'', Value = 2\<rparr>] None)
       (NewModel plainWidgets ''u'' ''up'' 2))) =
     [\<lparr>name = ''up{a}'', checked = True, colorIdx = 0\<rparr>,
      \<lparr>name = ''up{b}'', checked = True, colorIdx = 1\<rparr>]"
proof -
  define sl where "sl = [\<lparr>name = ''up{a}'', checked = False, colorIdx = 0\<rparr>,
      \<lparr>name = ''up{b}'', checked = True, colorIdx = 1\<rparr>]"
  define batch where "batch = [\<lparr>FullName = ''up{a}'', Value = 3\<rparr>, \<lparr>FullName = ''up{b}'', Value = 4\<rparr>,
      \<lparr>FullName = ''up{c}'', Value = 5\<rparr>, \<lparr>FullName = ''up{c}'', Value = 6\<rparr>]"
  define first where "first = [\<lparr>FullName = ''up{a}'', Value = 1\<rparr>, \<lparr>FullName = ''up{b}'', Value = 2\<rparr>]"
  define m0 :: "(string list, (string \<times> string) list) Model"
    where "m0 = NewModel plainWidgets ''u'' ''up'' 2"
  have names: "filter (\<lambda>n. n \<notin> set (map name sl)) (rev (remdups (rev (map FullName batch)))) = [''up{c}'']"
    by (simp add: sl_def batch_def)
  note t = reconcile_registry [of sl batch m0 plainWidgets 1, unfolded names]
  from t obtain new where eq: "reconcile sl batch = sl @ new"
    and nm: "map name new = [''up{c}'']"
    and fresh: "\<forall>i < length new. checked (new ! i) \<and> colorIdx (new ! i) = length sl + i"
    by (elim exE conjE)
  from nm obtain x where new: "new = [x]" and x: "name x = ''up{c}''"
    by (cases new) auto
  from fresh new have "checked x \<and> colorIdx x = 2"
    by (simp add: sl_def)
  with x have "x = \<lparr>name = ''up{c}'', checked = True, colorIdx = 2\<rparr>"
    by (cases x) simp
  with eq new have second: "reconcile sl batch = sl @ [\<lparr>name = ''up{c}'', checked = True, colorIdx = 2\<rparr>]"
    by simp
  have guard: "seriesList m0 = [] \<and> first \<noteq> [] \<and> baseNameOf (FullName (hd first)) = metricName m0"
    by (simp add: m0_def first_def NewModel_def baseNameOf_def)
  note t0 = reconcile_registry [of "[]" first m0 plainWidgets 1]
  from t0 obtain new0 where eq0: "reconcile [] first = [] @ new0"
    and upd0: "seriesList m0 = [] \<and> first \<noteq> [] \<and> baseNameOf (FullName (hd first)) = metricName m0 \<longrightarrow>
        seriesList (fst (Update plainWidgets 1 (MetricsMsg first None) m0)) = [] @ new0"
    by (elim exE conjE)
  from upd0 guard have upd: "seriesList (fst (Update plainWidgets 1 (MetricsMsg first None) m0)) = new0"
    by simp
  have ev: "reconcile [] first = [\<lparr>name = ''up{a}'', checked = True, colorIdx = 0\<rparr>,
      \<lparr>name = ''up{b}'', checked = True, colorIdx = 1\<rparr>]"
    by (simp add: reconcile_def first_def)
  from eq0 ev have "new0 = [\<lparr>name = ''up{a}'', checked = True, colorIdx = 0\<rparr>,
      \<lparr>name = ''up{b}'', checked = True, colorIdx = 1\<rparr>]"
    by simp
  with upd ev second show ?thesis
    unfolding sl_def batch_def first_def m0_def by simp
qed

end
